theory Spec2Isabelle
  imports Complex_Main "HOL-Library.Sublist"
begin


section \<open>Strings as the code uses them\<close>

text \<open>
  JavaScript strings are modelled as \<open>string\<close>. Case mapping and the regular-expression
  classes act on ASCII, which is what every literal pattern of the source is written in.
  \<open>String(e)\<close> of a thrown value is the error's message as a string: for
  \<open>new Error(m)\<close> it is \<open>Error: m\<close>. Writes to the browser console are not modelled.
\<close>

definition strIncludes :: "string \<Rightarrow> string \<Rightarrow> bool" where
  \<comment> \<open>\<open>s.includes(t)\<close>\<close>
  "strIncludes s t = sublist t s"

definition toLowerChar :: "char \<Rightarrow> char" where
  "toLowerChar c =
     (let n = of_char c :: nat in if 65 \<le> n \<and> n \<le> 90 then char_of (n + 32) else c)"

definition toUpperChar :: "char \<Rightarrow> char" where
  "toUpperChar c =
     (let n = of_char c :: nat in if 97 \<le> n \<and> n \<le> 122 then char_of (n - 32) else c)"

definition toLowerCase :: "string \<Rightarrow> string" where
  "toLowerCase s = map toLowerChar s"

definition toUpperCase :: "string \<Rightarrow> string" where
  "toUpperCase s = map toUpperChar s"

definition isSpace :: "char \<Rightarrow> bool" where
  \<comment> \<open>the class \<open>\s\<close> and the characters \<open>trim()\<close> removes, among the code units below 256\<close>
  "isSpace c = (of_char c \<in> {9, 10, 11, 12, 13, 32, 160 :: nat})"

definition isWord :: "char \<Rightarrow> bool" where
  \<comment> \<open>the class \<open>\w\<close>\<close>
  "isWord c =
     (let n = of_char c :: nat
      in (48 \<le> n \<and> n \<le> 57) \<or> (65 \<le> n \<and> n \<le> 90) \<or> (97 \<le> n \<and> n \<le> 122) \<or> n = 95)"

definition trim :: "string \<Rightarrow> string" where
  "trim s = rev (dropWhile isSpace (rev (dropWhile isSpace s)))"

definition slice0 :: "nat \<Rightarrow> string \<Rightarrow> string" where
  \<comment> \<open>\<open>s.slice(0, n)\<close>\<close>
  "slice0 n s = take n s"

definition digitChar :: "nat \<Rightarrow> char" where
  "digitChar n = ''0123456789'' ! (n mod 10)"

fun showNat :: "nat \<Rightarrow> string" where
  "showNat n = (if n < 10 then [digitChar n] else showNat (n div 10) @ [digitChar n])"

declare showNat.simps [simp del]

definition showInt :: "int \<Rightarrow> string" where
  \<comment> \<open>an integer inside a template literal\<close>
  "showInt i = (if i < 0 then CHR ''-'' # showNat (nat (- i)) else showNat (nat i))"

definition showOpt :: "('a \<Rightarrow> string) \<Rightarrow> 'a option \<Rightarrow> string" where
  \<comment> \<open>a possibly undefined value inside a template literal\<close>
  "showOpt f v = (case v of None \<Rightarrow> ''undefined'' | Some x \<Rightarrow> f x)"

definition orElse :: "string option \<Rightarrow> string \<Rightarrow> string" where
  \<comment> \<open>\<open>v || d\<close> on an optional string: the empty string is falsy\<close>
  "orElse v d = (case v of None \<Rightarrow> d | Some x \<Rightarrow> if x = [] then d else x)"

definition truthyStr :: "string option \<Rightarrow> bool" where
  "truthyStr v = (case v of None \<Rightarrow> False | Some x \<Rightarrow> x \<noteq> [])"

fun joinWith :: "string \<Rightarrow> string list \<Rightarrow> string" where
  "joinWith sep [] = []"
| "joinWith sep [x] = x"
| "joinWith sep (x # y # ys) = x @ sep @ joinWith sep (y # ys)"

fun replaceMatches :: "(string \<Rightarrow> nat option) \<Rightarrow> string \<Rightarrow> nat \<Rightarrow> string \<Rightarrow> string" where
  \<comment> \<open>\<open>s.replace(/re/g, rep)\<close> for a pattern \<open>re\<close> that never matches the empty string:
      the matcher gives the length of the match starting at the head of its argument, the
      counter is the number of characters of the current match still to be skipped\<close>
  "replaceMatches m rep k [] = []"
| "replaceMatches m rep (Suc k) (c # cs) = replaceMatches m rep k cs"
| "replaceMatches m rep 0 (c # cs) =
     (case m (c # cs) of
        Some n \<Rightarrow> rep @ replaceMatches m rep (n - 1) cs
      | None \<Rightarrow> c # replaceMatches m rep 0 cs)"

definition matchLiteral :: "string \<Rightarrow> string \<Rightarrow> nat option" where
  "matchLiteral w s = (if prefix w s then Some (length w) else None)"

definition replaceAllLiteral :: "string \<Rightarrow> string \<Rightarrow> string \<Rightarrow> string" where
  "replaceAllLiteral w rep s = replaceMatches (matchLiteral w) rep 0 s"

definition violentWords :: "string list" where
  "violentWords = [''fight'', ''punch'', ''kill'', ''blood'', ''attack'', ''shoot'', ''battle'',
     ''war'', ''weapon'', ''corpse'', ''violence'', ''injury'', ''death'', ''dead'']"

definition matchViolent :: "string \<Rightarrow> nat option" where
  \<comment> \<open>the alternation \<open>fight|punch|...|dead\<close> under the flag \<open>i\<close>: the first alternative
      that matches at this position\<close>
  "matchViolent s =
     map_option length (find (\<lambda>w. prefix w (toLowerCase s)) violentWords)"

definition softenScene :: "string \<Rightarrow> string" where
  \<comment> \<open>\<open>scene.replace(/fight|punch|...|dead/gi, "confrontation")\<close>\<close>
  "softenScene s = replaceMatches matchViolent ''confrontation'' 0 s"

section \<open>Data model\<close>

record Persona =
  base64 :: string
  desc :: string
  mimeType :: string

datatype FocusChar = Hero | Friend | Other

definition showFocus :: "FocusChar \<Rightarrow> string" where
  "showFocus f = (case f of Hero \<Rightarrow> ''hero'' | Friend \<Rightarrow> ''friend'' | Other \<Rightarrow> ''other'')"

datatype json =
    JNull
  | JBool bool
  | JNum int
  | JStr string
  | JArr "json list"
  | JObj "(string \<times> json) list"

text \<open>
  A beat is the object the beat generator returns. Its \<open>caption\<close> and \<open>dialogue\<close> are only
  ever read through a truthiness test, so a missing or falsy member is \<open>None\<close>. Its
  \<open>choices\<close> member is whatever value the repaired model output carries, \<open>None\<close> when the
  member is undefined.
\<close>

record Beat =
  caption :: "string option"
  dialogue :: "string option"
  scene :: string
  focus_char :: FocusChar
  choices :: "json option"

datatype FaceType = cover | story | back_cover

record ComicFace =
  id :: string
  ftype :: FaceType
  f_choices :: "json option"
  isLoading :: bool
  pageIndex :: "int option"
  narrative :: "Beat option"
  imageUrl :: "string option"
  isDecisionPage :: "bool option"
  resolvedChoice :: "string option"

section \<open>The model service\<close>

record InlineData =
  i_mimeType :: "string option"
  i_data :: "string option"

record Part =
  inlineData :: "InlineData option"
  p_text :: "string option"

record Content =
  parts :: "Part list option"

record Candidate =
  content :: "Content option"
  finishReason :: "string option"

record Response =
  candidates :: "Candidate list option"
  r_text :: "string option"

record Request =
  model :: string
  contents :: "Part list"
  aspectRatio :: "string option"
  responseMimeType :: "string option"

text \<open>
  What the service does with one request: it rejects with an error (given as \<open>String(e)\<close>),
  it answers, or it does not settle before the deadline.
\<close>

datatype Reply = Rejects string | Answers Response | Hangs

datatype ApiStatus = idle | loading | success | error

text \<open>
  The constants of \<open>./types\<close>, which the functions below take as a parameter.
\<close>

record Consts =
  MAX_STORY_PAGES :: int
  BACK_COVER_PAGE :: int
  TOTAL_PAGES :: int
  INITIAL_PAGES :: int
  BATCH_SIZE :: int
  DECISION_PAGES :: "int list"
  GENRES :: "string list"
  TONES :: "string list"
  LANGUAGES :: "(string \<times> string) list"

text \<open>
  Timers, dialogs and what else the component does to the outside, in the order it does it.
\<close>

datatype Effect = Alert string | Sleep nat

text \<open>
  The component's state: the refs, the React state the pipeline reads and writes, and the
  outside world. A setter that writes a state variable and its shadow ref is one field.
  The service is a script of replies, one for each request in the order the requests are
  made; \<open>calls\<close> records the requests. \<open>clock\<close> is the time of day that \<open>addLog\<close> stamps on
  a message (the model does not advance it), \<open>randoms\<close> the values \<open>Math.random()\<close> returns,
  one for each draw.
\<close>

record App =
  hero :: "Persona option"
  friend :: "Persona option"
  selectedGenre :: string
  selectedLanguage :: string
  customPremise :: string
  storyTone :: "string option"
  richMode :: bool
  refStrength :: int
  issueNumber :: int
  isFinale :: bool
  previousSummary :: string
  apiStatus :: ApiStatus
  apiErrorMessage :: "string option"
  showApiKeyDialog :: bool
  logs :: "string list"
  comicFaces :: "ComicFace list"
  currentSheetIndex :: int
  isStarted :: bool
  showSetup :: bool
  isTransitioning :: bool
  isLaunching :: bool
  generatingPages :: "int set"
  history :: "ComicFace list"
  script :: "nat \<Rightarrow> Reply"
  calls :: "Request list"
  randoms :: "nat \<Rightarrow> rat"
  randomsDrawn :: nat
  clock :: string
  effects :: "Effect list"

definition MODEL_V3 :: string where
  "MODEL_V3 = ''gemini-3-pro-image-preview''"

definition MODEL_IMAGE_GEN_NAME :: string where
  "MODEL_IMAGE_GEN_NAME = MODEL_V3"

definition MODEL_TEXT_NAME :: string where
  "MODEL_TEXT_NAME = MODEL_V3"

definition API_TIMEOUT_MS :: nat where
  "API_TIMEOUT_MS = 90000"

definition addLog :: "string \<Rightarrow> App \<Rightarrow> App" where
  \<comment> \<open>the feed keeps the last 15 lines\<close>
  "addLog msg s =
     (let ls = logs s @ [''['' @ clock s @ ''] '' @ msg]
      in s\<lparr>logs := drop (length ls - 15) ls\<rparr>)"

definition handleAPIError :: "string \<Rightarrow> App \<Rightarrow> App" where
  "handleAPIError msg s =
     (let s1 = s\<lparr>apiStatus := error, apiErrorMessage := Some msg\<rparr>;
          s2 = addLog (''!! CRITICAL ERROR: '' @ slice0 40 msg @ ''...'') s1
      in if strIncludes msg ''Requested entity was not found''
            \<or> strIncludes msg ''API_KEY_INVALID''
            \<or> strIncludes (toLowerCase msg) ''permission denied''
         then s2\<lparr>showApiKeyDialog := True\<rparr>
         else s2)"

definition generateContent :: "Request \<Rightarrow> App \<Rightarrow> Reply \<times> App" where
  "generateContent rq s = (script s (length (calls s)), s\<lparr>calls := calls s @ [rq]\<rparr>)"

definition withTimeout :: "Reply \<Rightarrow> nat \<Rightarrow> string + Response" where
  \<comment> \<open>the race of the call against the deadline timer\<close>
  "withTimeout call ms =
     (case call of
        Rejects e \<Rightarrow> Inl e
      | Answers res \<Rightarrow> Inr res
      | Hangs \<Rightarrow> Inl (''Error: Timeout after '' @ showNat ms @ ''ms''))"

definition createPlaceholderImage :: "(string \<Rightarrow> string) \<Rightarrow> string \<Rightarrow> string" where
  \<comment> \<open>the canvas is the browser's: \<open>canvas\<close> gives the JPEG data URL of the warning sheet
      drawn with the given banner\<close>
  "createPlaceholderImage canvas txt = canvas (toUpperCase txt)"

section \<open>Image Renderer\<close>

definition quote :: string where
  \<comment> \<open>the double quote character\<close>
  "quote = [CHR 0x22]"

definition langName :: "Consts \<Rightarrow> App \<Rightarrow> string" where
  \<comment> \<open>\<open>LANGUAGES.find(l => l.code === langRef.current)?.name || "English"\<close>\<close>
  "langName K s =
     (case find (\<lambda>l. fst l = selectedLanguage s) (LANGUAGES K) of
        None \<Rightarrow> ''English''
      | Some l \<Rightarrow> if snd l = [] then ''English'' else snd l)"

definition pageLabel :: "FaceType \<Rightarrow> int \<Rightarrow> string" where
  "pageLabel ty pageNum =
     (case ty of
        cover \<Rightarrow> ''Cover''
      | back_cover \<Rightarrow> ''Back Cover''
      | story \<Rightarrow> ''Page '' @ showInt pageNum)"

definition styleEra :: "App \<Rightarrow> string" where
  "styleEra s = (if selectedGenre s = ''Custom'' then ''Modern American'' else selectedGenre s)"

definition originalScene :: "App \<Rightarrow> Beat \<Rightarrow> string" where
  \<comment> \<open>\<open>beat.scene || `A scene featuring the ${genre} style`\<close>\<close>
  "originalScene s beat =
     (if scene beat = [] then ''A scene featuring the '' @ selectedGenre s @ '' style''
      else scene beat)"

definition SAFE_MODE :: string where
  "SAFE_MODE = ''SAFE MODE: Fictional illustration. Fantasy art. No photorealism. ''"

definition buildPrompt :: "Consts \<Rightarrow> App \<Rightarrow> Beat \<Rightarrow> FaceType \<Rightarrow> nat \<Rightarrow> string" where
  "buildPrompt K s beat ty retryLevel =
     (let t0 = ''STYLE: '' @ styleEra s @ '' comic book art. Fictional Character Art. '';
          t1 = (if retryLevel > 0 then t0 @ SAFE_MODE else t0)
      in case ty of
        cover \<Rightarrow>
          (let title = (if isFinale s then ''THE FINALE'' else ''ISSUE #'' @ showInt (issueNumber s));
               t2 = t1 @ ''TYPE: Comic Book Cover. TITLE: '' @ quote @ ''INFINITE HEROES '' @ title
                      @ quote @ '' (OR LOCALIZED TRANSLATION IN '' @ toUpperCase (langName K s)
                      @ ''). ''
           in if retryLevel > 0
              then t2 @ ''Main visual: Character Portrait of [HERO]. Standing Pose. Masterpiece.''
              else t2 @ ''Main visual: Dynamic action shot of [HERO].'')
      | back_cover \<Rightarrow>
          (let nextText = (if isFinale s then ''THE END'' else ''NEXT ISSUE SOON'')
           in t1 @ ''TYPE: Comic Back Cover. FULL PAGE VERTICAL ART. Dramatic teaser. Text: ''
                @ quote @ nextText @ quote @ ''.'')
      | story \<Rightarrow>
          (let t2 = t1 @ ''TYPE: Vertical comic panel. '';
               t3 = (if retryLevel = 2
                     then t2 @ ''SCENE: '' @ softenScene (originalScene s beat) @ ''. ''
                     else (let sceneToUse = (if retryLevel = 1
                                             then softenScene (originalScene s beat)
                                             else originalScene s beat)
                           in t2 @ ''SCENE: '' @ sceneToUse @ ''. ''));
               t4 = t3 @ ''INSTRUCTIONS: Create a fictional comic book illustration. Artistic interpretation. '';
               t5 = (if truthyStr (caption beat)
                     then t4 @ '' INCLUDE CAPTION BOX: '' @ quote @ the (caption beat) @ quote
                     else t4)
           in if truthyStr (dialogue beat)
              then t5 @ '' INCLUDE SPEECH BUBBLE: '' @ quote @ the (dialogue beat) @ quote
              else t5))"

definition textPart :: "string \<Rightarrow> Part" where
  "textPart t = \<lparr>inlineData = None, p_text = Some t\<rparr>"

definition imagePart :: "string \<Rightarrow> string \<Rightarrow> Part" where
  "imagePart mt d = \<lparr>inlineData = Some \<lparr>i_mimeType = Some mt, i_data = Some d\<rparr>, p_text = None\<rparr>"

definition hasBase64 :: "Persona option \<Rightarrow> bool" where
  \<comment> \<open>\<open>ref.current?.base64\<close> as a condition\<close>
  "hasBase64 p = (case p of None \<Rightarrow> False | Some x \<Rightarrow> base64 x \<noteq> [])"

definition hasDesc :: "Persona option \<Rightarrow> bool" where
  "hasDesc p = (case p of None \<Rightarrow> False | Some x \<Rightarrow> desc x \<noteq> [])"

definition usageInstruction :: "App \<Rightarrow> nat \<Rightarrow> string" where
  "usageInstruction s retryLevel =
     (let u = (if refStrength s = 3
               then '' (Use these REFERENCES strictly. Maintain character consistency and facial features as much as possible while applying the comic style).''
               else if refStrength s = 1
               then '' (Loosely inspired by the references. Create a new character with similar costume vibes but unique features).''
               else '' (Use these COSTUME REFERENCES to design the fictional characters. Do NOT generate a photorealistic replica. Stylize heavily).'')
      in if retryLevel > 0
         then u @ '' TRANSFORM THE CHARACTER: Alter features slightly to fit the artistic style. Fictionalize the identity.''
         else u)"

definition personaDescs :: "App \<Rightarrow> string" where
  \<comment> \<open>the variable \<open>desc\<close> of the text-only branch of \<open>executeGen\<close>\<close>
  "personaDescs s =
     (let d1 = (if hasDesc (hero s) then '' HERO: '' @ desc (the (hero s)) @ ''.'' else [])
      in if hasDesc (friend s) then d1 @ '' CO-STAR: '' @ desc (the (friend s)) @ ''.'' else d1)"

definition TEXT_ONLY_SUFFIX :: string where
  "TEXT_ONLY_SUFFIX = '' Fictional characters. Generic superhero features. High contrast comic art.''"

definition genParts :: "Consts \<Rightarrow> App \<Rightarrow> Beat \<Rightarrow> FaceType \<Rightarrow> bool \<Rightarrow> nat \<Rightarrow> Part list" where
  \<comment> \<open>the parts \<open>executeGen\<close> assembles\<close>
  "genParts K s beat ty useRefs retryLevel =
     (let shouldIncludeRefs = (useRefs \<and> retryLevel < 3)
      in if shouldIncludeRefs
         then
           (let p1 = (if hasBase64 (hero s)
                      then [textPart ''REFERENCE CHARACTER 1 (HERO) - FICTIONAL CHARACTER SHEET:'',
                            imagePart (mimeType (the (hero s))) (base64 (the (hero s)))]
                      else []);
                p2 = (if hasBase64 (friend s)
                      then [textPart ''REFERENCE CHARACTER 2 (CO-STAR) - FICTIONAL CHARACTER SHEET:'',
                            imagePart (mimeType (the (friend s))) (base64 (the (friend s)))]
                      else []);
                refPrompt = buildPrompt K s beat ty retryLevel @ usageInstruction s retryLevel
            in p1 @ p2 @ [textPart refPrompt])
         else [textPart (buildPrompt K s beat ty retryLevel @ personaDescs s @ TEXT_ONLY_SUFFIX)])"

definition genRequest :: "Consts \<Rightarrow> App \<Rightarrow> Beat \<Rightarrow> FaceType \<Rightarrow> bool \<Rightarrow> nat \<Rightarrow> Request" where
  "genRequest K s beat ty useRefs retryLevel =
     \<lparr>model = MODEL_IMAGE_GEN_NAME, contents = genParts K s beat ty useRefs retryLevel,
      aspectRatio = Some ''2:3'', responseMimeType = None\<rparr>"

definition executeGen ::
  "Consts \<Rightarrow> Beat \<Rightarrow> FaceType \<Rightarrow> bool \<Rightarrow> nat \<Rightarrow> App \<Rightarrow> (string + Response) \<times> App" where
  "executeGen K beat ty useRefs retryLevel s =
     (case generateContent (genRequest K s beat ty useRefs retryLevel) s of
        (call, s1) \<Rightarrow> (withTimeout call API_TIMEOUT_MS, s1))"

definition isSafetyBlock :: "string \<Rightarrow> bool" where
  "isSafetyBlock msg =
     (strIncludes msg ''Safety Block'' \<or> strIncludes msg ''Refused''
      \<or> strIncludes msg ''SAFETY'' \<or> strIncludes msg ''OTHER'')"

definition noCandidates :: "Response \<Rightarrow> bool" where
  \<comment> \<open>\<open>!res.candidates || res.candidates.length === 0\<close>\<close>
  "noCandidates res = (case candidates res of None \<Rightarrow> True | Some cs \<Rightarrow> cs = [])"

definition CONTENT_FILTERED :: string where
  \<comment> \<open>\<open>String(new Error("Safety Block: Content Filtered"))\<close>\<close>
  "CONTENT_FILTERED = ''Error: Safety Block: Content Filtered''"

definition attempt ::
  "Consts \<Rightarrow> Beat \<Rightarrow> FaceType \<Rightarrow> nat \<Rightarrow> App \<Rightarrow> (string + Response) \<times> App" where
  \<comment> \<open>the body of one of the first three \<open>try\<close> blocks: the call, then the throw on an
      answer without candidates\<close>
  "attempt K beat ty retryLevel s =
     (case executeGen K beat ty (hasBase64 (hero s)) retryLevel s of
        (Inl e, s1) \<Rightarrow> (Inl e, s1)
      | (Inr res, s1) \<Rightarrow> if noCandidates res then (Inl CONTENT_FILTERED, s1) else (Inr res, s1))"

definition ladder :: "Consts \<Rightarrow> Beat \<Rightarrow> FaceType \<Rightarrow> App \<Rightarrow> (string + Response) \<times> App" where
  \<comment> \<open>the nested \<open>try\<close> blocks of \<open>generateImage\<close>\<close>
  "ladder K beat ty s =
     (case attempt K beat ty 0 s of
        (Inr res, s1) \<Rightarrow> (Inr res, s1)
      | (Inl e, s1) \<Rightarrow>
          if isSafetyBlock e then
            (case attempt K beat ty 1 (addLog ''Scene intense. Softening visuals...'' s1) of
               (Inr res, s2) \<Rightarrow> (Inr res, s2)
             | (Inl e2, s2) \<Rightarrow>
                 if isSafetyBlock e2 then
                   (case attempt K beat ty 2 (addLog ''Retrying with stronger styling...'' s2) of
                      (Inr res, s3) \<Rightarrow> (Inr res, s3)
                    | (Inl e3, s3) \<Rightarrow>
                        if isSafetyBlock e3 then
                          executeGen K beat ty False 3
                            (addLog ''Visual link unstable. Using textual reconstruction...'' s3)
                        else (Inl e3, s3))
                 else (Inl e2, s2))
          else (Inl e, s1))"

definition firstCandidateParts :: "Candidate \<Rightarrow> Part list option" where
  \<comment> \<open>\<open>candidate.content?.parts\<close>\<close>
  "firstCandidateParts c = (case content c of None \<Rightarrow> None | Some ct \<Rightarrow> parts ct)"

definition findImage :: "Part list option \<Rightarrow> InlineData option" where
  \<comment> \<open>\<open>parts?.find(p => p.inlineData)\<close>, then \<open>part?.inlineData\<close> kept when its data is truthy\<close>
  "findImage ps =
     (case ps of
        None \<Rightarrow> None
      | Some l \<Rightarrow>
          (case find (\<lambda>p. inlineData p \<noteq> None) l of
             None \<Rightarrow> None
           | Some p \<Rightarrow>
               (case inlineData p of
                  None \<Rightarrow> None
                | Some d \<Rightarrow> if truthyStr (i_data d) then Some d else None)))"

definition findText :: "Part list option \<Rightarrow> string option" where
  \<comment> \<open>\<open>parts?.find(p => p.text)?.text\<close>\<close>
  "findText ps =
     (case ps of
        None \<Rightarrow> None
      | Some l \<Rightarrow>
          (case find (\<lambda>p. truthyStr (p_text p)) l of
             None \<Rightarrow> None
           | Some p \<Rightarrow> p_text p))"

definition dataUri :: "InlineData \<Rightarrow> string" where
  "dataUri d = ''data:'' @ showOpt (\<lambda>x. x) (i_mimeType d) @ '';base64,'' @ the (i_data d)"

definition inspectResponse :: "Response \<Rightarrow> string + string" where
  \<comment> \<open>the final check and the three inspections after the ladder: the data URI, or the
      error thrown\<close>
  "inspectResponse res =
     (case candidates res of
        None \<Rightarrow> Inl CONTENT_FILTERED
      | Some [] \<Rightarrow> Inl CONTENT_FILTERED
      | Some (c # cs) \<Rightarrow>
          (case findImage (firstCandidateParts c) of
             Some d \<Rightarrow> Inr (dataUri d)
           | None \<Rightarrow>
               (case findText (firstCandidateParts c) of
                  Some t \<Rightarrow> Inl (''Error: Model Refused: '' @ slice0 100 t @ ''...'')
                | None \<Rightarrow>
                    if truthyStr (finishReason c) \<and> finishReason c \<noteq> Some ''STOP''
                    then Inl (''Error: Generation stopped: '' @ the (finishReason c))
                    else Inl ''Error: No image data returned from API (Unknown Structure)'')))"

definition isAuthMessage :: "string \<Rightarrow> bool" where
  "isAuthMessage msg =
     (strIncludes msg ''API_KEY'' \<or> strIncludes msg ''403'' \<or> strIncludes msg ''Permission denied'')"

definition isFilterMessage :: "string \<Rightarrow> bool" where
  "isFilterMessage msg =
     (strIncludes msg ''Safety Block'' \<or> strIncludes msg ''Refused'' \<or> strIncludes msg ''SAFETY'')"

definition imageFailure :: "(string \<Rightarrow> string) \<Rightarrow> string \<Rightarrow> string \<Rightarrow> App \<Rightarrow> string \<times> App" where
  \<comment> \<open>the outer \<open>catch\<close> of \<open>generateImage\<close>\<close>
  "imageFailure canvas lbl msg s =
     (if isAuthMessage msg
      then (createPlaceholderImage canvas ''AUTH ERROR'', handleAPIError msg s)
      else if isFilterMessage msg
      then (createPlaceholderImage canvas ''CONTENT FILTERED'',
            addLog (''!! Content Filtered for '' @ lbl) s)
      else (createPlaceholderImage canvas ''IMAGE GEN FAILED'',
            addLog (''!! Image Gen Failed for '' @ lbl @ '': '' @ slice0 30 msg @ ''...'') s))"

definition generateImage ::
  "Consts \<Rightarrow> (string \<Rightarrow> string) \<Rightarrow> Beat \<Rightarrow> FaceType \<Rightarrow> int \<Rightarrow> App \<Rightarrow> string \<times> App" where
  "generateImage K canvas beat ty pageNum s =
     (let lbl = pageLabel ty pageNum;
          s0 = addLog (''Rendering visual assets for '' @ lbl @ ''...'') s
      in case ladder K beat ty s0 of
           (Inl e, s1) \<Rightarrow> imageFailure canvas lbl e s1
         | (Inr res, s1) \<Rightarrow>
             (case inspectResponse res of
                Inr url \<Rightarrow> (url, addLog (lbl @ '' successfully inked.'') s1)
              | Inl e \<Rightarrow> imageFailure canvas lbl e s1))"

section \<open>Beat Generator\<close>

text \<open>
  What the pipeline takes from the JavaScript runtime and the browser. \<open>JSON_parse\<close> gives
  the parsed value or \<open>String(e)\<close> of the syntax error; \<open>typeError v\<close> is \<open>String(e)\<close> of
  the \<open>TypeError\<close> raised by reading a member of \<open>null\<close>, by writing a member of a
  primitive value (module code is strict) or by calling a missing method of \<open>v\<close>;
  \<open>lessThan2 v\<close> is the comparison \<open>v < 2\<close> for a value that is not a number;
  \<open>canvasJPEG\<close> draws the placeholder sheet; \<open>validateApiKey\<close> is the hook of
  \<open>./useApiKey\<close>, which maps the dialog flag it owns to its answer and the new flag.
\<close>

record Runtime =
  JSON_parse :: "string \<Rightarrow> string + json"
  typeError :: "json \<Rightarrow> string"
  lessThan2 :: "json \<Rightarrow> bool"
  canvasJPEG :: "string \<Rightarrow> string"
  validateApiKey :: "bool \<Rightarrow> bool \<times> bool"

definition apos :: string where
  \<comment> \<open>the single quote character\<close>
  "apos = [CHR 0x27]"

definition nl :: string where
  \<comment> \<open>the line feed\<close>
  "nl = [CHR 0x0A]"

definition random :: "App \<Rightarrow> rat \<times> App" where
  \<comment> \<open>\<open>Math.random()\<close>\<close>
  "random s = (randoms s (randomsDrawn s), s\<lparr>randomsDrawn := Suc (randomsDrawn s)\<rparr>)"

definition pageIndexOr0 :: "ComicFace \<Rightarrow> int" where
  \<comment> \<open>\<open>p.pageIndex || 0\<close>\<close>
  "pageIndexOr0 p = (case pageIndex p of None \<Rightarrow> 0 | Some i \<Rightarrow> i)"

definition relevantHistory :: "ComicFace list \<Rightarrow> int \<Rightarrow> ComicFace list" where
  \<comment> \<open>the filter, then the stable sort by page index\<close>
  "relevantHistory hist pageNum =
     sort_key pageIndexOr0
       (filter (\<lambda>p. ftype p = story \<and> narrative p \<noteq> None \<and> pageIndexOr0 p < pageNum) hist)"

definition lastFocus :: "ComicFace list \<Rightarrow> FocusChar option" where
  \<comment> \<open>the focus of the last relevant beat; \<open>None\<close> stands for the string \<open>none\<close>\<close>
  "lastFocus rel =
     (case rel of
        [] \<Rightarrow> None
      | x # xs \<Rightarrow> map_option focus_char (narrative (last rel)))"

definition historyLine :: "ComicFace \<Rightarrow> string" where
  "historyLine p =
     ''[Page '' @ showOpt showInt (pageIndex p) @ ''] [Focus: ''
       @ showOpt showFocus (map_option focus_char (narrative p)) @ ''] (Caption: '' @ quote
       @ orElse (Option.bind (narrative p) caption) [] @ quote @ '') (Dialogue: '' @ quote
       @ orElse (Option.bind (narrative p) dialogue) [] @ quote @ '') (Scene: ''
       @ showOpt (\<lambda>x. x) (map_option scene (narrative p)) @ '') ''
       @ (if truthyStr (resolvedChoice p)
         then ''-> USER CHOICE: '' @ quote @ the (resolvedChoice p) @ quote else [])"

definition historyText :: "ComicFace list \<Rightarrow> string" where
  "historyText rel = joinWith nl (map historyLine rel)"

definition coreDriver :: "App \<Rightarrow> string" where
  "coreDriver s =
     (if selectedGenre s = ''Custom''
      then ''STORY PREMISE: ''
           @ orElse (Some (customPremise s)) ''A totally unique, unpredictable adventure''
           @ ''. (Follow this premise strictly over standard genre tropes).''
      else ''GENRE: '' @ selectedGenre s @ ''. TONE: '' @ showOpt (\<lambda>x. x) (storyTone s) @ ''.'')"

definition storyContext :: "App \<Rightarrow> string \<Rightarrow> string" where
  "storyContext s histText =
     (let c0 = (if issueNumber s > 1 \<and> previousSummary s \<noteq> []
                then ''PREVIOUS ISSUES RECAP: '' @ previousSummary s @ nl
                else [])
      in c0 @ ''CURRENT ISSUE ('' @ showInt (issueNumber s) @ ''): ''
           @ (if length histText > 0 then histText else ''Start of this issue.''))"

definition guardrails :: string where
  "guardrails =
     nl @ ''    NEGATIVE CONSTRAINTS:'' @ nl @ ''    1. UNLESS GENRE IS '' @ quote @ ''Dark Sci-Fi''
       @ quote @ '' OR '' @ quote @ ''Superhero Action'' @ quote @ '' OR '' @ quote @ ''Custom''
       @ quote @ '': DO NOT use technical jargon like '' @ quote @ ''Quantum'' @ quote @ '', '' @ quote
       @ ''Timeline'' @ quote @ '', '' @ quote @ ''Portal'' @ quote @ '', '' @ quote @ ''Multiverse''
       @ quote @ '', or '' @ quote @ ''Singularity'' @ quote @ ''.'' @ nl @ ''    2. IF GENRE IS ''
       @ quote @ ''Teen Drama'' @ quote @ '' OR '' @ quote @ ''Lighthearted Comedy'' @ quote
       @ '': The '' @ quote @ ''stakes'' @ quote
       @ '' must be SOCIAL, EMOTIONAL, or PERSONAL (e.g., a rumor, a competition, a broken promise, being late, embarrassing oneself). Do NOT make it life-or-death. Keep it grounded.''
       @ nl @ ''    3. Avoid '' @ quote @ ''The artifact'' @ quote @ '' or '' @ quote @ ''The device''
       @ quote @ '' unless established earlier.'' @ nl @ ''    ''"

definition stageInstruction :: "App \<Rightarrow> int \<Rightarrow> string" where
  \<comment> \<open>the branch for a page that is neither the final page nor a decision page\<close>
  "stageInstruction s pageNum =
     (if pageNum = 1
      then (if isFinale s
            then '' THE BEGINNING OF THE END. Establish the final conflict immediately.''
            else '' INCITING INCIDENT. An event disrupts the status quo. Establish the genre'' @ apos
                 @ ''s intended mood.'')
      else if pageNum \<le> 4
      then '' RISING ACTION. The heroes engage with the new situation. Focus on dialogue, character dynamics, and initial challenges.''
      else if pageNum \<le> 8
      then '' COMPLICATION. A twist occurs! A secret is revealed, a misunderstanding deepens, or the path is blocked.''
      else '' CLIMAX. The confrontation with the main conflict.'')"

definition instructionText :: "Consts \<Rightarrow> App \<Rightarrow> int \<Rightarrow> bool \<Rightarrow> string" where
  "instructionText K s pageNum isDecision =
     (let isFinalPage = (pageNum = MAX_STORY_PAGES K);
          i0 = ''Continue the story. ALL OUTPUT TEXT (Captions, Dialogue, Choices) MUST BE IN ''
                @ toUpperCase (langName K s) @ ''. '' @ coreDriver s @ '' '' @ guardrails;
          i1 = (if isFinale s
                then i0 @ '' IMPORTANT: THIS IS THE GRAND FINALE ISSUE. You must resolve all major plot lines.''
                else i0);
          i2 = (if richMode s
                then i1 @ '' RICH/NOVEL MODE ENABLED. Prioritize deeper character thoughts, descriptive captions, and meaningful dialogue exchanges over short punchlines.''
                else i1)
      in if isFinalPage
         then (if isFinale s
               then i2 @ '' FINAL PAGE OF THE SERIES. CONCLUSIVE ENDING. End with '' @ apos @ ''THE END'' @ apos
                         @ ''. Do NOT leave a cliffhanger.''
               else i2 @ '' FINAL PAGE OF THIS ISSUE. KARMIC CLIFFHANGER REQUIRED. Text must end with '' @ apos
                         @ ''TO BE CONTINUED...'' @ apos @ '' (or localized equivalent).'')
         else if isDecision
         then i2 @ '' End with a PSYCHOLOGICAL choice about VALUES, RELATIONSHIPS, or RISK. (e.g., Truth vs. Safety, Forgive vs. Avenge). The options must NOT be simple physical actions like ''
                   @ apos @ ''Go Left'' @ apos @ ''.''
         else i2 @ stageInstruction s pageNum)"

definition capLimit :: "App \<Rightarrow> string" where
  "capLimit s =
     (if richMode s then ''max 35 words. Detailed narration or internal monologue''
      else ''max 15 words'')"

definition diaLimit :: "App \<Rightarrow> string" where
  "diaLimit s =
     (if richMode s then ''max 30 words. Rich, character-driven speech'' else ''max 12 words'')"

definition promptHead :: "Consts \<Rightarrow> App \<Rightarrow> int \<Rightarrow> string \<Rightarrow> string" where
  \<comment> \<open>the script prompt up to the context\<close>
  "promptHead K s pageNum friendInstruction =
     nl @ ''You are writing a comic book script. PAGE '' @ showInt pageNum @ '' of ''
       @ showInt (MAX_STORY_PAGES K) @ ''. ISSUE #'' @ showInt (issueNumber s) @ ''.'' @ nl
       @ ''TARGET LANGUAGE FOR TEXT: '' @ langName K s
       @ '' (CRITICAL: CAPTIONS, DIALOGUE, CHOICES MUST BE IN THIS LANGUAGE).'' @ nl @ coreDriver s
       @ nl @ nl @ ''CHARACTERS:'' @ nl @ ''- HERO: Active.'' @ nl @ ''- CO-STAR: ''
       @ friendInstruction @ nl @ nl @ ''CONTEXT:'' @ nl"

definition promptTail :: "Consts \<Rightarrow> App \<Rightarrow> int \<Rightarrow> string \<Rightarrow> string" where
  \<comment> \<open>the script prompt after the context\<close>
  "promptTail K s pageNum instruction =
     nl @ nl @ ''RULES:'' @ nl
       @ ''1. NO REPETITION. Do not use the same captions or dialogue from previous pages.'' @ nl
       @ ''2. IF CO-STAR IS ACTIVE, THEY MUST APPEAR FREQUENTLY.'' @ nl @ ''3. VARIETY. If page ''
       @ showInt (pageNum - 1) @ '' was an action shot, make this one a reaction or wide shot.'' @ nl
       @ ''4. LANGUAGE: All user-facing text MUST be in '' @ langName K s @ ''.'' @ nl
       @ ''5. Avoid saying '' @ quote @ ''CO-star'' @ quote @ '' and '' @ quote @ ''hero'' @ quote
       @ '' in the text captions. Use names if established, or generic descriptors.'' @ nl @ nl
       @ ''INSTRUCTION: '' @ instruction @ nl @ nl
       @ ''OUTPUT STRICT JSON ONLY (No markdown formatting):'' @ nl @ ''{'' @ nl @ ''  '' @ quote
       @ ''caption'' @ quote @ '': '' @ quote @ ''Unique narrator text in '' @ langName K s @ ''. (''
       @ capLimit s @ '').'' @ quote @ '','' @ nl @ ''  '' @ quote @ ''dialogue'' @ quote @ '': ''
       @ quote @ ''Unique speech in '' @ langName K s @ ''. ('' @ diaLimit s @ ''). Optional.'' @ quote
       @ '','' @ nl @ ''  '' @ quote @ ''scene'' @ quote @ '': '' @ quote
       @ ''Vivid visual description (ALWAYS IN ENGLISH for the artist model). MUST mention '' @ apos
       @ ''HERO'' @ apos @ '' or '' @ apos @ ''CO-STAR'' @ apos @ '' if they are present.'' @ quote
       @ '','' @ nl @ ''  '' @ quote @ ''focus_char'' @ quote @ '': '' @ quote @ ''hero'' @ quote
       @ '' OR '' @ quote @ ''friend'' @ quote @ '' OR '' @ quote @ ''other'' @ quote @ '','' @ nl
       @ ''  '' @ quote @ ''choices'' @ quote @ '': ['' @ quote @ ''Option A in '' @ langName K s
       @ quote @ '', '' @ quote @ ''Option B in '' @ langName K s @ quote
       @ ''] (Only if decision page)'' @ nl @ ''}'' @ nl"

definition beatPrompt ::
  "Consts \<Rightarrow> App \<Rightarrow> ComicFace list \<Rightarrow> int \<Rightarrow> bool \<Rightarrow> string \<Rightarrow> string" where
  "beatPrompt K s hist pageNum isDecision friendInstruction =
     promptHead K s pageNum friendInstruction
       @ storyContext s (historyText (relevantHistory hist pageNum))
       @ promptTail K s pageNum (instructionText K s pageNum isDecision)"

subsection \<open>Repair of the model's answer\<close>

definition member :: "string \<Rightarrow> json \<Rightarrow> json option" where
  \<comment> \<open>reading a member of the parsed value: only an object has the members read here (the
      list of an object holds each member once)\<close>
  "member k v = (case v of JObj kvs \<Rightarrow> map_of kvs k | _ \<Rightarrow> None)"

definition truthy :: "json option \<Rightarrow> bool" where
  "truthy v =
     (case v of
        None \<Rightarrow> False
      | Some JNull \<Rightarrow> False
      | Some (JBool b) \<Rightarrow> b
      | Some (JNum n) \<Rightarrow> n \<noteq> 0
      | Some (JStr t) \<Rightarrow> t \<noteq> []
      | Some (JArr xs) \<Rightarrow> True
      | Some (JObj kvs) \<Rightarrow> True)"

definition isLabelChar :: "char \<Rightarrow> bool" where
  \<comment> \<open>the class \<open>[\w\s\-]\<close>\<close>
  "isLabelChar c = (isWord c \<or> isSpace c \<or> c = CHR ''-'')"

definition stripSpeaker :: "string \<Rightarrow> string" where
  \<comment> \<open>\<open>s.replace(/^[\w\s\-]+:\s*/i, '')\<close>: the colon is outside the class, so the label is
      the longest run of class characters at the start\<close>
  "stripSpeaker s =
     (let run = takeWhile isLabelChar s; rest = dropWhile isLabelChar s
      in if run \<noteq> [] \<and> rest \<noteq> [] \<and> hd rest = CHR '':''
         then dropWhile isSpace (tl rest)
         else s)"

definition stripQuotes :: "string \<Rightarrow> string" where
  \<comment> \<open>\<open>s.replace(/["']/g, '')\<close>\<close>
  "stripQuotes s = filter (\<lambda>c. c \<noteq> CHR 0x22 \<and> c \<noteq> CHR 0x27) s"

definition shortLength :: "Runtime \<Rightarrow> json \<Rightarrow> bool" where
  \<comment> \<open>\<open>v.length < 2\<close> for a truthy \<open>v\<close>: a number and \<open>true\<close> have no length, and
      \<open>undefined < 2\<close> is false\<close>
  "shortLength R v =
     (case v of
        JStr t \<Rightarrow> length t < 2
      | JArr xs \<Rightarrow> length xs < 2
      | JObj kvs \<Rightarrow>
          (case map_of kvs ''length'' of
             None \<Rightarrow> False
           | Some (JNum n) \<Rightarrow> n < 2
           | Some w \<Rightarrow> lessThan2 R w)
      | _ \<Rightarrow> False)"

definition cleanText :: "Runtime \<Rightarrow> (string \<Rightarrow> string) \<Rightarrow> json option \<Rightarrow> string + string option" where
  \<comment> \<open>\<open>if (parsed.x) parsed.x = f(parsed.x)\<close>, where \<open>f\<close> starts with \<open>.replace\<close>: a truthy
      value that is not a string has no such method\<close>
  "cleanText R f v =
     (if truthy v
      then (case v of Some (JStr t) \<Rightarrow> Inr (Some (f t)) | _ \<Rightarrow> Inl (typeError R (the v)))
      else Inr (case v of Some (JStr t) \<Rightarrow> Some t | _ \<Rightarrow> None))"

definition defaultChoices :: json where
  "defaultChoices = JArr [JStr ''Option A'', JStr ''Option B'']"

definition repairChoices :: "Runtime \<Rightarrow> bool \<Rightarrow> bool \<Rightarrow> json \<Rightarrow> json option" where
  \<comment> \<open>the two statements on \<open>parsed.choices\<close>\<close>
  "repairChoices R isDecision isFinalPage parsed =
     (let ch0 = (if \<not> isDecision then Some (JArr []) else member ''choices'' parsed)
      in if isDecision \<and> \<not> isFinalPage \<and> (\<not> truthy ch0 \<or> shortLength R (the ch0))
         then Some defaultChoices else ch0)"

definition repairFocus :: "json \<Rightarrow> FocusChar" where
  \<comment> \<open>\<open>if (!['hero', 'friend', 'other'].includes(parsed.focus_char)) parsed.focus_char = 'hero'\<close>\<close>
  "repairFocus parsed =
     (case member ''focus_char'' parsed of
        Some (JStr t) \<Rightarrow>
          if t = ''hero'' then Hero
          else if t = ''friend'' then Friend
          else if t = ''other'' then Other
          else Hero
      | _ \<Rightarrow> Hero)"

definition DEFAULT_SCENE :: "App \<Rightarrow> string" where
  "DEFAULT_SCENE s =
     ''A dramatic scene in the style of '' @ selectedGenre s
       @ ''. The characters react to the situation.''"

definition repairScene :: "App \<Rightarrow> json \<Rightarrow> string" where
  \<comment> \<open>\<open>if (!parsed.scene || typeof parsed.scene !== 'string') parsed.scene = ...\<close>\<close>
  "repairScene s parsed =
     (case member ''scene'' parsed of
        Some (JStr t) \<Rightarrow> if t = [] then DEFAULT_SCENE s else t
      | _ \<Rightarrow> DEFAULT_SCENE s)"

definition isPrimitive :: "json \<Rightarrow> bool" where
  "isPrimitive v =
     (case v of JNull \<Rightarrow> True | JBool b \<Rightarrow> True | JNum n \<Rightarrow> True | JStr t \<Rightarrow> True
      | JArr xs \<Rightarrow> False | JObj kvs \<Rightarrow> False)"

definition repairBeat :: "Runtime \<Rightarrow> App \<Rightarrow> bool \<Rightarrow> bool \<Rightarrow> json \<Rightarrow> string + Beat" where
  \<comment> \<open>the statements between \<open>JSON.parse\<close> and \<open>return parsed as Beat\<close>; \<open>Inl\<close> is the
      \<open>TypeError\<close> they raise: reading a member of \<open>null\<close> fails at once, and on any other
      primitive value one of the assignments fails\<close>
  "repairBeat R s isDecision isFinalPage parsed =
     (if isPrimitive parsed then Inl (typeError R parsed)
      else
        (case cleanText R (\<lambda>t. trim (stripQuotes (stripSpeaker t))) (member ''dialogue'' parsed) of
           Inl e \<Rightarrow> Inl e
         | Inr dia \<Rightarrow>
             (case cleanText R (\<lambda>t. trim (stripSpeaker t)) (member ''caption'' parsed) of
                Inl e \<Rightarrow> Inl e
              | Inr cap \<Rightarrow>
                  Inr \<lparr>caption = cap, dialogue = dia, scene = repairScene s parsed,
                       focus_char = repairFocus parsed,
                       choices = repairChoices R isDecision isFinalPage parsed\<rparr>)))"

definition fallbackBeat :: "int \<Rightarrow> Beat" where
  "fallbackBeat pageNum =
     \<lparr>caption = Some (if pageNum = 1 then ''It began...'' else ''...''),
      dialogue = None,
      scene = ''Generic scene for page '' @ showInt pageNum @ ''.'',
      focus_char = Hero,
      choices = Some (JArr [])\<rparr>"

definition friendInstruction :: "ComicFace list \<Rightarrow> App \<Rightarrow> string \<times> App" where
  \<comment> \<open>\<open>Math.random()\<close> is drawn only when the co-star exists and was not the last focus\<close>
  "friendInstruction rel s =
     (if friend s = None then (''Not yet introduced.'', s)
      else if lastFocus rel \<noteq> Some Friend
      then (case random s of
              (r, s1) \<Rightarrow>
                if r > 2 / 5
                then (''ACTIVE and PRESENT (User Provided).''
                        @ '' MANDATORY: FOCUS ON THE CO-STAR FOR THIS PANEL.'', s1)
                else (''ACTIVE and PRESENT (User Provided).''
                        @ '' Ensure they are woven into the scene even if not the main focus.'', s1))
      else (''ACTIVE and PRESENT (User Provided).''
              @ '' Ensure they are woven into the scene even if not the main focus.'', s))"

definition stripFences :: "string \<Rightarrow> string" where
  \<comment> \<open>\<open>rawText.replace(/```json/g, '').replace(/```/g, '').trim()\<close>\<close>
  "stripFences t = trim (replaceAllLiteral ''```'' [] (replaceAllLiteral ''```json'' [] t))"

definition beatFromReply :: "Runtime \<Rightarrow> App \<Rightarrow> int \<Rightarrow> bool \<Rightarrow> bool \<Rightarrow> string + Response \<Rightarrow> string + Beat" where
  \<comment> \<open>the body of the \<open>try\<close> block after the call; \<open>Inl\<close> is \<open>String(e)\<close> of what it throws\<close>
  "beatFromReply R s pageNum isDecision isFinalPage r =
     (case r of
        Inl e \<Rightarrow> Inl e
      | Inr res \<Rightarrow>
          (case JSON_parse R (stripFences (orElse (r_text res) ''{}'')) of
             Inl e \<Rightarrow> Inl e
           | Inr parsed \<Rightarrow> repairBeat R s isDecision isFinalPage parsed))"

definition draftBeat ::
  "Consts \<Rightarrow> Runtime \<Rightarrow> int \<Rightarrow> bool \<Rightarrow> string \<Rightarrow> App \<Rightarrow> Beat \<times> App" where
  \<comment> \<open>the \<open>try\<close> and \<open>catch\<close> of \<open>generateBeat\<close>, given the prompt\<close>
  "draftBeat K R pageNum isDecision prompt s =
     (case generateContent
             \<lparr>model = MODEL_TEXT_NAME, contents = [textPart prompt], aspectRatio = None,
              responseMimeType = Some ''application/json''\<rparr> s of
        (call, s1) \<Rightarrow>
          (case beatFromReply R s1 pageNum isDecision (pageNum = MAX_STORY_PAGES K)
                  (withTimeout call 30000) of
             Inr beat \<Rightarrow>
               (beat, addLog (''Script for Page '' @ showInt pageNum @ '' finalized.'') s1)
           | Inl msg \<Rightarrow>
               (fallbackBeat pageNum,
                if isAuthMessage msg then handleAPIError msg s1
                else addLog (''!! Script Gen Failed for Page '' @ showInt pageNum
                               @ ''. Using default.'') s1)))"

definition generateBeat ::
  "Consts \<Rightarrow> Runtime \<Rightarrow> ComicFace list \<Rightarrow> bool \<Rightarrow> int \<Rightarrow> bool \<Rightarrow> App \<Rightarrow> (string + Beat) \<times> App" where
  \<comment> \<open>\<open>Inl\<close> is the error the function throws\<close>
  "generateBeat K R hist isRightPage pageNum isDecision s =
     (if hero s = None then (Inl ''Error: No Hero'', s)
      else
        (case friendInstruction (relevantHistory hist pageNum)
                (addLog (''Drafting narrative arc for Page '' @ showInt pageNum @ ''...'') s) of
           (fi, s1) \<Rightarrow>
             (case draftBeat K R pageNum isDecision
                     (beatPrompt K s1 hist pageNum isDecision fi) s1 of
                (beat, s2) \<Rightarrow> (Inr beat, s2))))"

section \<open>Persona Synthesizer\<close>

definition firstCandidate :: "Response \<Rightarrow> Candidate option" where
  \<comment> \<open>\<open>res.candidates?.[0]\<close>\<close>
  "firstCandidate res =
     (case candidates res of None \<Rightarrow> None | Some [] \<Rightarrow> None | Some (c # cs) \<Rightarrow> Some c)"

definition generatePersona :: "string \<Rightarrow> App \<Rightarrow> (string + Persona) \<times> App" where
  "generatePersona d s =
     (let style = (if selectedGenre s = ''Custom'' then ''Modern American comic book art''
                   else selectedGenre s @ '' comic'');
          s0 = addLog (''Synthesizing character design: '' @ d @ ''...'') s
      in case generateContent
                \<lparr>model = MODEL_IMAGE_GEN_NAME,
                 contents = [textPart (''STYLE: Masterpiece '' @ style
                    @ '' character sheet, detailed ink, neutral background. FULL BODY. Character: '' @ d)],
                 aspectRatio = Some ''1:1'',
                 responseMimeType = None\<rparr> s0 of
           (call, s1) \<Rightarrow>
             (let outcome =
                    (case withTimeout call 45000 of
                       Inl e \<Rightarrow> Inl e
                     | Inr res \<Rightarrow>
                         (case findImage (case firstCandidate res of
                                            None \<Rightarrow> None
                                          | Some c \<Rightarrow> firstCandidateParts c) of
                            Some img \<Rightarrow> Inr img
                          | None \<Rightarrow> Inl ''Error: Failed''))
              in case outcome of
                   Inr img \<Rightarrow>
                     (Inr \<lparr>base64 = the (i_data img), desc = d,
                           mimeType = orElse (i_mimeType img) ''image/jpeg''\<rparr>,
                      addLog ''Character materialized successfully.'' s1)
                 | Inl msg \<Rightarrow>
                     (Inl msg, if isAuthMessage msg then handleAPIError msg s1 else s1)))"

section \<open>Page Orchestrator\<close>

fun updateFirst :: "('a \<Rightarrow> bool) \<Rightarrow> ('a \<Rightarrow> 'a) \<Rightarrow> 'a list \<Rightarrow> 'a list" where
  \<comment> \<open>\<open>findIndex\<close>, then the assignment at that index\<close>
  "updateFirst P f [] = []"
| "updateFirst P f (x # xs) = (if P x then f x # xs else x # updateFirst P f xs)"

definition updateFaceState :: "string \<Rightarrow> (ComicFace \<Rightarrow> ComicFace) \<Rightarrow> App \<Rightarrow> App" where
  \<comment> \<open>the partial update is given as the function that writes its members\<close>
  "updateFaceState faceId upd s =
     s\<lparr>comicFaces := map (\<lambda>f. if id f = faceId then upd f else f) (comicFaces s),
       history := updateFirst (\<lambda>f. id f = faceId) upd (history s)\<rparr>"

definition stubBeat :: Beat where
  \<comment> \<open>\<open>{ scene: "", choices: [], focus_char: 'other' }\<close>\<close>
  "stubBeat =
     \<lparr>caption = None, dialogue = None, scene = [], focus_char = Other, choices = Some (JArr [])\<rparr>"

definition draftPage ::
  "Consts \<Rightarrow> Runtime \<Rightarrow> int \<Rightarrow> FaceType \<Rightarrow> bool \<Rightarrow> App \<Rightarrow> (string + Beat) \<times> App" where
  \<comment> \<open>the beat of the page: the stub for the covers, the generated beat for a story page\<close>
  "draftPage K R pageNum ty isDecision s =
     (case ty of
        cover \<Rightarrow> (Inr stubBeat, s)
      | back_cover \<Rightarrow> (Inr (stubBeat\<lparr>scene := ''Thematic teaser image''\<rparr>), s)
      | story \<Rightarrow> generateBeat K R (history s) (pageNum mod 2 = 0) pageNum isDecision s)"

definition castSidekick :: "FaceType \<Rightarrow> Beat \<Rightarrow> App \<Rightarrow> Beat \<times> App" where
  \<comment> \<open>the co-star is synthesized when the beat focuses on one and there is none\<close>
  "castSidekick ty beat s =
     (if focus_char beat = Friend \<and> friend s = None \<and> ty = story
      then (case generatePersona
                   (if selectedGenre s = ''Custom''
                    then ''A fitting sidekick for this story''
                    else ''Sidekick for '' @ selectedGenre s @ '' story.'') s of
              (Inr newSidekick, s1) \<Rightarrow> (beat, s1\<lparr>friend := Some newSidekick\<rparr>)
            | (Inl e, s1) \<Rightarrow> (beat\<lparr>focus_char := Other\<rparr>, s1))
      else (beat, s))"

definition commitBeat :: "Beat \<Rightarrow> bool \<Rightarrow> ComicFace \<Rightarrow> ComicFace" where
  \<comment> \<open>the update \<open>{ narrative: beat, choices: beat.choices, isDecisionPage: isDecision }\<close>\<close>
  "commitBeat beat isDecision f =
     f\<lparr>narrative := Some beat, f_choices := choices beat, isDecisionPage := Some isDecision\<rparr>"

definition commitImage :: "string \<Rightarrow> ComicFace \<Rightarrow> ComicFace" where
  \<comment> \<open>the update \<open>{ imageUrl: url, isLoading: false }\<close>\<close>
  "commitImage url f = f\<lparr>imageUrl := Some url, isLoading := False\<rparr>"

definition generateSinglePage ::
  "Consts \<Rightarrow> Runtime \<Rightarrow> string \<Rightarrow> int \<Rightarrow> FaceType \<Rightarrow> App \<Rightarrow> string option \<times> App" where
  \<comment> \<open>\<open>Some e\<close> is the error the function throws\<close>
  "generateSinglePage K R faceId pageNum ty s =
     (let isDecision = (pageNum \<in> set (DECISION_PAGES K))
      in case draftPage K R pageNum ty isDecision s of
           (Inl e, s1) \<Rightarrow> (Some e, s1)
         | (Inr beat, s1) \<Rightarrow>
             (case castSidekick ty beat s1 of
                (beat1, s2) \<Rightarrow>
                  (case generateImage K (canvasJPEG R) beat1 ty pageNum
                          (updateFaceState faceId (commitBeat beat1 isDecision) s2) of
                     (url, s4) \<Rightarrow> (None, updateFaceState faceId (commitImage url) s4))))"

section \<open>Batch and Issue Scheduler\<close>

definition pageId :: "int \<Rightarrow> string" where
  "pageId pageNum = ''page-'' @ showInt pageNum"

definition pageType :: "Consts \<Rightarrow> int \<Rightarrow> FaceType" where
  "pageType K pageNum = (if pageNum = BACK_COVER_PAGE K then back_cover else story)"

definition pagesToGen :: "Consts \<Rightarrow> int \<Rightarrow> int \<Rightarrow> App \<Rightarrow> int list" where
  \<comment> \<open>the first loop of \<open>generateBatch\<close>\<close>
  "pagesToGen K startPage n s =
     filter (\<lambda>p. p \<le> TOTAL_PAGES K \<and> p \<notin> generatingPages s)
       (map (\<lambda>i. startPage + int i) [0..<nat n])"

definition newFace :: "Consts \<Rightarrow> int \<Rightarrow> ComicFace" where
  "newFace K pageNum =
     \<lparr>id = pageId pageNum, ftype = pageType K pageNum, f_choices = Some (JArr []),
      isLoading = True, pageIndex = Some pageNum, narrative = None, imageUrl = None,
      isDecisionPage = None, resolvedChoice = None\<rparr>"

fun pushMissing :: "ComicFace list \<Rightarrow> ComicFace list \<Rightarrow> ComicFace list" where
  \<comment> \<open>\<open>newFaces.forEach(f => { if (!history.find(h => h.id === f.id)) history.push(f) })\<close>\<close>
  "pushMissing hist [] = hist"
| "pushMissing hist (f # fs) =
     pushMissing (if id f \<in> set (map id hist) then hist else hist @ [f]) fs"

fun batchLoop :: "Consts \<Rightarrow> Runtime \<Rightarrow> int list \<Rightarrow> App \<Rightarrow> App" where
  \<comment> \<open>the \<open>for\<close> loop inside the \<open>try\<close>: an error ends the loop\<close>
  "batchLoop K R [] s = s"
| "batchLoop K R (pageNum # rest) s =
     (case generateSinglePage K R (pageId pageNum) pageNum (pageType K pageNum) s of
        (Some e, s1) \<Rightarrow> s1
      | (None, s1) \<Rightarrow>
          batchLoop K R rest
            (s1\<lparr>generatingPages := generatingPages s1 - {pageNum},
                effects := effects s1 @ [Sleep 1000]\<rparr>))"

definition scheduleBatch :: "Consts \<Rightarrow> int list \<Rightarrow> App \<Rightarrow> App" where
  \<comment> \<open>\<open>generateBatch\<close> between the first loop and the \<open>try\<close>: the guard, the new faces\<close>
  "scheduleBatch K pages s =
     (let newFaces = map (newFace K) pages
      in s\<lparr>generatingPages := generatingPages s \<union> set pages,
           comicFaces := comicFaces s
              @ filter (\<lambda>f. id f \<notin> set (map id (comicFaces s))) newFaces,
           history := pushMissing (history s) newFaces\<rparr>)"

definition generateBatch :: "Consts \<Rightarrow> Runtime \<Rightarrow> int \<Rightarrow> int \<Rightarrow> App \<Rightarrow> App" where
  "generateBatch K R startPage n s =
     (let pages = pagesToGen K startPage n s
      in if pages = [] then s
         else (let s1 = batchLoop K R pages (scheduleBatch K pages s)
               in s1\<lparr>generatingPages := generatingPages s1 - set pages\<rparr>))"

definition coverFace :: ComicFace where
  "coverFace =
     \<lparr>id = ''cover'', ftype = cover, f_choices = Some (JArr []), isLoading = True,
      pageIndex = Some 0, narrative = None, imageUrl = None, isDecisionPage = None,
      resolvedChoice = None\<rparr>"

definition startIssueGeneration :: "Consts \<Rightarrow> Runtime \<Rightarrow> bool \<Rightarrow> App \<Rightarrow> App" where
  \<comment> \<open>the timer callback and the batch that is not awaited run in program order\<close>
  "startIssueGeneration K R isNewIssue s =
     (let s0 = s\<lparr>isLaunching := True\<rparr>;
          s1 = (if \<not> isNewIssue
                then addLog ''Initializing Multiverse Core...'' (s0\<lparr>logs := []\<rparr>)
                else addLog (''Preparing Issue #'' @ showInt (issueNumber s0) @ ''...'') s0);
          s2 = s1\<lparr>comicFaces := [coverFace], history := [coverFace],
                   generatingPages := generatingPages s1 \<union> {0}\<rparr>
      in case generateSinglePage K R ''cover'' 0 cover s2 of
           (Some e, s3) \<Rightarrow> s3\<lparr>generatingPages := generatingPages s3 - {0}\<rparr>
         | (None, s3) \<Rightarrow>
             (let s4 = addLog ''Engaging Hyper-Transition...''
                         (s3\<lparr>generatingPages := generatingPages s3 - {0}\<rparr>);
                  s5 = s4\<lparr>isTransitioning := True, effects := effects s4 @ [Sleep 1100]\<rparr>;
                  s6 = addLog ''Inking initial story sequence...''
                         (s5\<lparr>isStarted := True, showSetup := False, isTransitioning := False\<rparr>);
                  s7 = generateBatch K R 1 (INITIAL_PAGES K) s6;
                  s8 = addLog ''Ready to read!'' (s7\<lparr>isLaunching := False\<rparr>)
              in generateBatch K R 3 3 s8))"

definition availableTones :: "Consts \<Rightarrow> App \<Rightarrow> string list" where
  "availableTones K s =
     (if selectedGenre s = ''Teen Drama / Slice of Life'' \<or> selectedGenre s = ''Lighthearted Comedy''
      then filter (\<lambda>t. strIncludes t ''CASUAL'' \<or> strIncludes t ''WHOLESOME''
                        \<or> strIncludes t ''QUIPPY'') (TONES K)
      else if selectedGenre s = ''Classic Horror''
      then filter (\<lambda>t. strIncludes t ''INNER-MONOLOGUE'' \<or> strIncludes t ''OPERATIC'') (TONES K)
      else TONES K)"

definition pickTone :: "string list \<Rightarrow> rat \<Rightarrow> string option" where
  \<comment> \<open>\<open>tones[Math.floor(r * tones.length)]\<close>\<close>
  "pickTone tones r =
     (let i = \<lfloor>r * of_nat (length tones)\<rfloor>
      in if 0 \<le> i \<and> nat i < length tones then Some (tones ! nat i) else None)"

definition launchStory :: "Consts \<Rightarrow> Runtime \<Rightarrow> App \<Rightarrow> string option \<times> App" where
  \<comment> \<open>\<open>Some e\<close> is the error the function throws\<close>
  "launchStory K R s =
     (case validateApiKey R (showApiKeyDialog s) of
        (hasKey, dialog) \<Rightarrow>
          (let s0 = s\<lparr>showApiKeyDialog := dialog\<rparr>
           in if \<not> hasKey then (None, s0)
              else if hero s0 = None then (None, s0)
              else if selectedGenre s0 = ''Custom'' \<and> trim (customPremise s0) = []
              then (None, s0\<lparr>effects := effects s0
                              @ [Alert ''Please enter a custom story premise.'']\<rparr>)
              else
                (let s1 = addLog (''Setting Genre: '' @ toUpperCase (selectedGenre s0)) s0
                 in case random s1 of
                      (r, s2) \<Rightarrow>
                        (case pickTone (availableTones K s2) r of
                           None \<Rightarrow> (Some (typeError R JNull), s2\<lparr>storyTone := None\<rparr>)
                         | Some tone \<Rightarrow>
                             (let s3 = addLog (''Harmonizing Tone: ''
                                                 @ takeWhile (\<lambda>c. c \<noteq> CHR '' '') tone)
                                         (s2\<lparr>storyTone := Some tone\<rparr>);
                                  s4 = s3\<lparr>issueNumber := 1, isFinale := False,
                                           previousSummary := []\<rparr>
                              in (None, startIssueGeneration K R False s4))))))"

definition summaryLine :: "ComicFace \<Rightarrow> string" where
  "summaryLine h =
     ''[Page '' @ showOpt showInt (pageIndex h) @ ''] ''
       @ orElse (Option.bind (narrative h) caption) [] @ '' ''
       @ orElse (Option.bind (narrative h) dialogue) []
       @ '' (Scene: '' @ showOpt (\<lambda>x. x) (map_option scene (narrative h)) @ '')''"

definition summaryText :: "ComicFace list \<Rightarrow> string" where
  \<comment> \<open>the text content of the pages that have a beat\<close>
  "summaryText hist = joinWith '' '' (map summaryLine (filter (\<lambda>h. narrative h \<noteq> None) hist))"

definition generateSummary :: "ComicFace list \<Rightarrow> App \<Rightarrow> string \<times> App" where
  "generateSummary hist s =
     (let s0 = addLog ''Archiving narrative thread...'' s;
          txt = summaryText hist
      in if txt = [] then (''The story begins.'', s0)
         else
           (case generateContent
                   \<lparr>model = MODEL_TEXT_NAME,
                    contents = [textPart (''Summarize the events of this comic issue in 3 sentences. Focus on the ending cliffhanger or resolution. TEXT: '' @ txt)],
                    aspectRatio = None, responseMimeType = None\<rparr> s0 of
              (call, s1) \<Rightarrow>
                (case withTimeout call 20000 of
                   Inr res \<Rightarrow> (orElse (r_text res) ''To be continued...'', s1)
                 | Inl e \<Rightarrow> (''The story continues...'', s1))))"

definition archiveIssue :: "bool \<Rightarrow> App \<Rightarrow> App" where
  \<comment> \<open>\<open>handleNextIssue\<close> up to the hard reset, before the relaunch\<close>
  "archiveIssue finale s =
     (case generateSummary (history s) s of
        (summary, s1) \<Rightarrow>
          (let s2 = addLog ''Issue archived.''
                      (s1\<lparr>previousSummary := previousSummary s1 @ nl @ ''[Issue ''
                            @ showInt (issueNumber s1) @ '' Summary]: '' @ summary\<rparr>);
               s3 = s2\<lparr>issueNumber := issueNumber s2 + 1, isFinale := finale\<rparr>
           in s3\<lparr>comicFaces := [], currentSheetIndex := 0, history := [],
                 generatingPages := {}\<rparr>))"

definition handleNextIssue :: "Consts \<Rightarrow> Runtime \<Rightarrow> bool \<Rightarrow> App \<Rightarrow> App" where
  "handleNextIssue K R finale s = startIssueGeneration K R True (archiveIssue finale s)"

section \<open>Notions the properties are stated with\<close>

definition ladderReply :: "App \<Rightarrow> nat \<Rightarrow> string + Response" where
  \<comment> \<open>how the \<open>k\<close>-th request made from state \<open>s\<close> on settles\<close>
  "ladderReply s k = withTimeout (script s (length (calls s) + k)) API_TIMEOUT_MS"

definition escalates :: "string + Response \<Rightarrow> bool" where
  \<comment> \<open>the attempt raised an error that \<open>isSafetyBlock\<close> accepts, or returned no candidates\<close>
  "escalates r = (case r of Inl e \<Rightarrow> isSafetyBlock e | Inr res \<Rightarrow> noCandidates res)"

definition hasImage :: "string + Response \<Rightarrow> bool" where
  \<comment> \<open>the attempt returned a response whose first candidate carries inline image data\<close>
  "hasImage r =
     (case r of
        Inl e \<Rightarrow> False
      | Inr res \<Rightarrow> (case inspectResponse res of Inl e \<Rightarrow> False | Inr url \<Rightarrow> True))"

definition ladderRequest :: "Consts \<Rightarrow> App \<Rightarrow> Beat \<Rightarrow> FaceType \<Rightarrow> nat \<Rightarrow> Request" where
  \<comment> \<open>the request of fallback level \<open>k\<close>\<close>
  "ladderRequest K s beat ty k = genRequest K s beat ty (k < 3 \<and> hasBase64 (hero s)) k"

definition ladderDepth :: "App \<Rightarrow> nat" where
  "ladderDepth s =
     (if escalates (ladderReply s 0)
      then if escalates (ladderReply s 1)
           then if escalates (ladderReply s 2) then 4 else 3
           else 2
      else 1)"

definition levelsAttempted ::
  "Consts \<Rightarrow> (string \<Rightarrow> string) \<Rightarrow> Beat \<Rightarrow> FaceType \<Rightarrow> int \<Rightarrow> App \<Rightarrow> nat" where
  \<comment> \<open>the number of requests one call of \<open>generateImage\<close> makes\<close>
  "levelsAttempted K canvas beat ty pageNum s =
     length (calls (snd (generateImage K canvas beat ty pageNum s))) - length (calls s)"

definition capped :: "string + Response \<Rightarrow> string + Response" where
  "capped r =
     (case r of
        Inl e \<Rightarrow> Inl e
      | Inr res \<Rightarrow> if noCandidates res then Inl CONTENT_FILTERED else Inr res)"

definition finalOutcome :: "App \<Rightarrow> string + string" where
  \<comment> \<open>what the last attempted level leaves to the outer handler: the data URI, or the error\<close>
  "finalOutcome s =
     (case ladderReply s (ladderDepth s - 1) of Inl e \<Rightarrow> Inl e | Inr res \<Rightarrow> inspectResponse res)"

definition placeholderText :: "string \<Rightarrow> string" where
  \<comment> \<open>the banner the outer handler chooses for an error message\<close>
  "placeholderText msg =
     (if isAuthMessage msg then ''AUTH ERROR''
      else if isFilterMessage msg then ''CONTENT FILTERED''
      else ''IMAGE GEN FAILED'')"

definition opensKeyDialog :: "string \<Rightarrow> bool" where
  \<comment> \<open>the messages for which \<open>handleAPIError\<close> opens the key dialog\<close>
  "opensKeyDialog msg =
     (strIncludes msg ''Requested entity was not found''
      \<or> strIncludes msg ''API_KEY_INVALID''
      \<or> strIncludes (toLowerCase msg) ''permission denied'')"

definition stylePrefix :: "App \<Rightarrow> string" where
  \<comment> \<open>how every image prompt starts\<close>
  "stylePrefix s = ''STYLE: '' @ styleEra s @ '' comic book art. Fictional Character Art. ''"

definition panelSuffix :: "Beat \<Rightarrow> string" where
  \<comment> \<open>what follows the scene in the prompt of a story page\<close>
  "panelSuffix beat =
     ''INSTRUCTIONS: Create a fictional comic book illustration. Artistic interpretation. ''
       @ (if truthyStr (caption beat)
          then '' INCLUDE CAPTION BOX: '' @ quote @ the (caption beat) @ quote else [])
       @ (if truthyStr (dialogue beat)
          then '' INCLUDE SPEECH BUBBLE: '' @ quote @ the (dialogue beat) @ quote else [])"

definition frame :: "App \<Rightarrow> App \<Rightarrow> bool" where
  \<comment> \<open>the second state differs from the first at most in the log, the requests made, the
      error flags and the number of random values drawn\<close>
  "frame s t =
     (t = s\<lparr>logs := logs t, calls := calls t, apiStatus := apiStatus t,
            apiErrorMessage := apiErrorMessage t, showApiKeyDialog := showApiKeyDialog t,
            randomsDrawn := randomsDrawn t\<rparr>)"

definition beatAnswer :: "Consts \<Rightarrow> Runtime \<Rightarrow> int \<Rightarrow> bool \<Rightarrow> App \<Rightarrow> string + Beat" where
  \<comment> \<open>what the \<open>try\<close> block of \<open>generateBeat\<close> yields on the reply to the next request\<close>
  "beatAnswer K R pageNum isDecision s =
     beatFromReply R s pageNum isDecision (pageNum = MAX_STORY_PAGES K)
       (withTimeout (script s (length (calls s))) 30000)"

definition beatRequest :: "string \<Rightarrow> Request" where
  \<comment> \<open>the request \<open>generateBeat\<close> makes with a prompt\<close>
  "beatRequest prompt =
     \<lparr>model = MODEL_TEXT_NAME, contents = [textPart prompt], aspectRatio = None,
      responseMimeType = Some ''application/json''\<rparr>"

definition sameBook :: "App \<Rightarrow> App \<Rightarrow> bool" where
  \<comment> \<open>the two states have the same pages, history, guard set, effects, hero and script\<close>
  "sameBook s t =
     (comicFaces t = comicFaces s \<and> history t = history s
      \<and> generatingPages t = generatingPages s \<and> effects t = effects s \<and> hero t = hero s
      \<and> script t = script s)"



section \<open>Concrete inputs\<close>

definition exampleConsts :: Consts where
  "exampleConsts =
     \<lparr>MAX_STORY_PAGES = 10, BACK_COVER_PAGE = 11, TOTAL_PAGES = 11, INITIAL_PAGES = 2,
      BATCH_SIZE = 6, DECISION_PAGES = [3],
      GENRES = [''Classic Horror'', ''Superhero Action'', ''Custom''],
      TONES = [''OPERATIC (Grand, dramatic declarations)'', ''QUIPPY (Banter-heavy)''],
      LANGUAGES = [(''en-US'', ''English''), (''fr-FR'', ''French'')]\<rparr>"

definition exampleRuntime :: Runtime where
  \<comment> \<open>a runtime that parses the two texts used below\<close>
  "exampleRuntime =
     \<lparr>JSON_parse = (\<lambda>t. if t = ''{}'' then Inr (JObj [])
                           else if t = ''null'' then Inr JNull
                           else Inl (''SyntaxError: Unexpected token in '' @ t)),
      typeError = (\<lambda>v. ''TypeError: Cannot read properties''),
      lessThan2 = (\<lambda>v. False),
      canvasJPEG = (\<lambda>t. ''data:image/jpeg;base64,'' @ t),
      validateApiKey = (\<lambda>d. (True, d))\<rparr>"

definition examplePersona :: Persona where
  "examplePersona = \<lparr>base64 = ''aGVybw=='', desc = ''The Main Hero'', mimeType = ''image/jpeg''\<rparr>"

definition exampleApp :: "(nat \<Rightarrow> Reply) \<Rightarrow> App" where
  \<comment> \<open>a session with a hero and no co-star, before the launch, talking to a service that
      follows the given script\<close>
  "exampleApp sc =
     \<lparr>hero = Some examplePersona, friend = None, selectedGenre = ''Classic Horror'',
      selectedLanguage = ''en-US'', customPremise = [],
      storyTone = Some ''OPERATIC (Grand, dramatic declarations)'', richMode = True,
      refStrength = 2, issueNumber = 1, isFinale = False, previousSummary = [],
      apiStatus = idle, apiErrorMessage = None, showApiKeyDialog = False, logs = [],
      comicFaces = [], currentSheetIndex = 0, isStarted = False, showSetup = True,
      isTransitioning = False, isLaunching = False, generatingPages = {}, history = [],
      script = sc, calls = [], randoms = (\<lambda>n. 1 / 2), randomsDrawn = 0,
      clock = ''12:00:00'', effects = []\<rparr>"

definition exampleBeat :: Beat where
  "exampleBeat =
     \<lparr>caption = None, dialogue = None, scene = ''The hero joins the fight'',
      focus_char = Hero, choices = Some (JArr [])\<rparr>"

definition imageResponse :: Response where
  "imageResponse =
     \<lparr>candidates = Some [\<lparr>content = Some \<lparr>parts = Some [imagePart ''image/png'' ''iVBORw0KGgo='']\<rparr>,
                           finishReason = Some ''STOP''\<rparr>],
      r_text = None\<rparr>"

definition emptyResponse :: Response where
  "emptyResponse = \<lparr>candidates = Some [], r_text = None\<rparr>"


definition textResponse :: "string \<Rightarrow> Response" where
  \<comment> \<open>the answer of the text model\<close>
  "textResponse t = \<lparr>candidates = None, r_text = Some t\<rparr>"

definition blockedTwiceScript :: "nat \<Rightarrow> Reply" where
  "blockedTwiceScript i =
     (if i = 0 then Answers emptyResponse
      else if i = 1 then Rejects ''Error: blocked, finishReason SAFETY''
      else if i = 2 then Answers imageResponse
      else Hangs)"



definition forbiddenScript :: "nat \<Rightarrow> Reply" where
  \<comment> \<open>every request is rejected with HTTP status 403\<close>
  "forbiddenScript i = Rejects ''Error: 403 Forbidden''"

definition customApp :: App where
  \<comment> \<open>the genre is \<open>Custom\<close> and the premise is two blanks\<close>
  "customApp = (exampleApp forbiddenScript)\<lparr>selectedGenre := ''Custom'', customPremise := ''  ''\<rparr>"

definition storyFace :: "int \<Rightarrow> Beat option \<Rightarrow> ComicFace" where
  \<comment> \<open>a story page with the given index and beat\<close>
  "storyFace i b =
     \<lparr>id = pageId i, ftype = story, f_choices = Some (JArr []), isLoading = False,
      pageIndex = Some i, narrative = b, imageUrl = None, isDecisionPage = Some False,
      resolvedChoice = None\<rparr>"

definition finishedApp :: App where
  \<comment> \<open>issue 1 with a history of three pages, page 5 in flight, and a service that rejects
      every request\<close>
  "finishedApp =
     (exampleApp forbiddenScript)
       \<lparr>history := [storyFace 1 (Some exampleBeat), storyFace 2 (Some exampleBeat),
                    storyFace 3 (Some exampleBeat)],
        comicFaces := [storyFace 1 (Some exampleBeat), storyFace 2 (Some exampleBeat),
                       storyFace 3 (Some exampleBeat)],
        generatingPages := {5}\<rparr>"

definition emptyObjectScript :: "nat \<Rightarrow> Reply" where
  \<comment> \<open>the text model answers every request with an empty JSON object\<close>
  "emptyObjectScript i = Answers (textResponse ''{}'')"

definition mixedHistory :: "ComicFace list" where
  \<comment> \<open>pages 3 and 1 with a beat, page 2 still without one, page 5 committed by a later batch\<close>
  "mixedHistory =
     [storyFace 3 (Some exampleBeat), storyFace 1 (Some exampleBeat), storyFace 2 None,
      storyFace 5 (Some exampleBeat)]"



section \<open>The requests of one render\<close>


lemma addLog_fields [simp]:
  "calls (addLog m s) = calls s" "script (addLog m s) = script s" "hero (addLog m s) = hero s"
  "friend (addLog m s) = friend s" "apiStatus (addLog m s) = apiStatus s"
  "showApiKeyDialog (addLog m s) = showApiKeyDialog s"
  "apiErrorMessage (addLog m s) = apiErrorMessage s"
  by (simp_all add: addLog_def Let_def)

lemma genRequest_cong:
  assumes "hero s = hero t" "friend s = friend t" "selectedGenre s = selectedGenre t"
    "selectedLanguage s = selectedLanguage t" "issueNumber s = issueNumber t"
    "isFinale s = isFinale t" "refStrength s = refStrength t"
  shows "genRequest K s = genRequest K t"
  unfolding genRequest_def genParts_def buildPrompt_def usageInstruction_def styleEra_def
    originalScene_def langName_def personaDescs_def
  by (simp only: assms)

lemma genRequest_addLog [simp]: "genRequest K (addLog m s) = genRequest K s"
  by (rule genRequest_cong) (simp_all add: addLog_def Let_def)

lemma genRequest_calls [simp]: "genRequest K (s\<lparr>calls := c\<rparr>) = genRequest K s"
  by (rule genRequest_cong) simp_all

lemma executeGen_eq:
  "executeGen K beat ty u lvl s =
     (ladderReply s 0, s\<lparr>calls := calls s @ [genRequest K s beat ty u lvl]\<rparr>)"
  by (simp add: executeGen_def generateContent_def ladderReply_def)

lemma isSafetyBlock_CONTENT_FILTERED [simp]: "isSafetyBlock CONTENT_FILTERED"
  by code_simp

lemma attempt_eq:
  "attempt K beat ty lvl s =
     (capped (ladderReply s 0),
      s\<lparr>calls := calls s @ [genRequest K s beat ty (hasBase64 (hero s)) lvl]\<rparr>)"
  by (simp add: attempt_def executeGen_eq capped_def split: sum.splits)

lemma capped_cases:
  "capped r = Inl e \<Longrightarrow> isSafetyBlock e = escalates r"
  "capped r = Inr res \<Longrightarrow> \<not> escalates r"
  by (auto simp: capped_def escalates_def split: sum.splits if_splits)

lemma upt4: "[0..<4] = [0,1,2,3]" "[0..<3] = [0,1,2]" "[0..<2] = [0,1]" "[0..<1] = [0]"
  by (simp_all add: upt_rec)

lemma ladder_calls:
  "calls (snd (ladder K beat ty s)) = calls s @ map (ladderRequest K s beat ty) [0..<ladderDepth s]"
  by (auto simp: ladder_def attempt_eq executeGen_eq ladderDepth_def ladderRequest_def upt4
      ladderReply_def
      dest: capped_cases split: sum.splits)

lemma handleAPIError_calls [simp]: "calls (handleAPIError m s) = calls s"
  by (simp add: handleAPIError_def Let_def)

lemma imageFailure_calls [simp]: "calls (snd (imageFailure canvas lbl e s)) = calls s"
  by (simp add: imageFailure_def)

lemma ladderDepth_addLog [simp]: "ladderDepth (addLog m s) = ladderDepth s"
  by (simp add: ladderDepth_def ladderReply_def)

lemma ladderRequest_addLog [simp]: "ladderRequest K (addLog m s) = ladderRequest K s"
  by (simp add: ladderRequest_def fun_eq_iff)

lemma generateImage_calls:
  "calls (snd (generateImage K canvas beat ty pageNum s))
     = calls s @ map (ladderRequest K s beat ty) [0..<ladderDepth s]"
proof -
  let ?s0 = "addLog (''Rendering visual assets for '' @ pageLabel ty pageNum @ ''...'') s"
  have "calls (snd (generateImage K canvas beat ty pageNum s)) = calls (snd (ladder K beat ty ?s0))"
    by (simp add: generateImage_def Let_def split: prod.splits sum.splits)
  then show ?thesis by (simp add: ladder_calls)
qed

lemma levelsAttempted_eq: "levelsAttempted K canvas beat ty pageNum s = ladderDepth s"
  by (simp add: levelsAttempted_def generateImage_calls)

lemma ladderDepth_bounds: "1 \<le> ladderDepth s \<and> ladderDepth s \<le> 4"
  by (simp add: ladderDepth_def)

lemma ladderDepth_step:
  "k < 3 \<Longrightarrow> (k + 1 < ladderDepth s) = (k < ladderDepth s \<and> escalates (ladderReply s k))"
  by (auto simp: ladderDepth_def less_Suc_eq eval_nat_numeral)

lemma hasImage_not_escalates: "hasImage r \<longrightarrow> \<not> escalates r"
proof (cases r)
  case (Inl e)
  then show ?thesis by (simp add: hasImage_def)
next
  case (Inr res)
  show ?thesis
  proof (cases "candidates res")
    case None
    with Inr show ?thesis by (simp add: hasImage_def inspectResponse_def)
  next
    case (Some cs)
    with Inr show ?thesis
      by (cases cs) (simp_all add: hasImage_def inspectResponse_def escalates_def noCandidates_def)
  qed
qed

lemma showNat_timeout: "showNat API_TIMEOUT_MS = ''90000''"
  by (simp add: showNat.simps digitChar_def API_TIMEOUT_MS_def)

lemma timeout_message: "withTimeout Hangs API_TIMEOUT_MS = Inl ''Error: Timeout after 90000ms''"
  by (simp add: withTimeout_def showNat_timeout)

lemma timeout_message_generic: "\<not> isSafetyBlock ''Error: Timeout after 90000ms''"
  by code_simp

lemma timeout_not_safety: "\<not> escalates (withTimeout Hangs API_TIMEOUT_MS)"
  by (simp add: timeout_message escalates_def timeout_message_generic)

lemma ladderDepth_stop:
  "k < ladderDepth s \<Longrightarrow> \<not> escalates (ladderReply s k) \<Longrightarrow> ladderDepth s = k + 1"
  by (auto simp: ladderDepth_def less_Suc_eq eval_nat_numeral split: if_splits)

lemma level3_parts:
  "contents (ladderRequest K s beat ty 3)
     = [textPart (buildPrompt K s beat ty 3 @ personaDescs s @ TEXT_ONLY_SUFFIX)]"
  by (simp add: ladderRequest_def genRequest_def genParts_def)

lemma ladder_unchanged:
  "apiStatus (snd (ladder K beat ty s)) = apiStatus s"
  "apiErrorMessage (snd (ladder K beat ty s)) = apiErrorMessage s"
  "showApiKeyDialog (snd (ladder K beat ty s)) = showApiKeyDialog s"
  by (auto simp: ladder_def attempt_eq executeGen_eq split: sum.splits)

lemma capped_outcome:
  "(case capped r of Inl e \<Rightarrow> Inl e | Inr res \<Rightarrow> inspectResponse res)
     = (case r of Inl e \<Rightarrow> Inl e | Inr res \<Rightarrow> inspectResponse res)"
  by (auto simp: capped_def inspectResponse_def noCandidates_def split: sum.splits option.splits)

lemma ladder_fst:
  "fst (ladder K beat ty s)
     = (if ladderDepth s = 4 then ladderReply s 3 else capped (ladderReply s (ladderDepth s - 1)))"
  by (auto simp: ladder_def attempt_eq executeGen_eq ladderDepth_def ladderReply_def
      eval_nat_numeral dest: capped_cases split: sum.splits)

lemma ladder_outcome:
  "(case fst (ladder K beat ty s) of Inl e \<Rightarrow> Inl e | Inr res \<Rightarrow> inspectResponse res)
     = finalOutcome s"
  by (simp add: ladder_fst finalOutcome_def capped_outcome)

lemma finalOutcome_addLog [simp]: "finalOutcome (addLog m s) = finalOutcome s"
  by (simp add: finalOutcome_def ladderReply_def)

lemma imageFailure_fst:
  "fst (imageFailure canvas lbl e s) = createPlaceholderImage canvas (placeholderText e)"
  by (simp add: imageFailure_def placeholderText_def)

lemma generateImage_result:
  "fst (generateImage K canvas beat ty pageNum s)
     = (case finalOutcome s of
          Inr url \<Rightarrow> url
        | Inl e \<Rightarrow> createPlaceholderImage canvas (placeholderText e))"
proof -
  let ?s0 = "addLog (''Rendering visual assets for '' @ pageLabel ty pageNum @ ''...'') s"
  have "finalOutcome ?s0 = finalOutcome s" by simp
  then have o: "(case fst (ladder K beat ty ?s0) of Inl e \<Rightarrow> Inl e | Inr res \<Rightarrow> inspectResponse res)
      = finalOutcome s"
    by (simp only: ladder_outcome)
  show ?thesis
    using o
    by (cases "ladder K beat ty ?s0"; cases "fst (ladder K beat ty ?s0)")
       (auto simp: generateImage_def Let_def imageFailure_fst split: sum.splits)
qed

lemma handleAPIError_flags:
  "apiStatus (handleAPIError m s) = error"
  "apiErrorMessage (handleAPIError m s) = Some m"
  "showApiKeyDialog (handleAPIError m s) = (showApiKeyDialog s \<or> opensKeyDialog m)"
  by (auto simp: handleAPIError_def Let_def opensKeyDialog_def)

lemma imageFailure_flags:
  "isAuthMessage e \<Longrightarrow> apiStatus (snd (imageFailure canvas lbl e s)) = error"
  "isAuthMessage e \<Longrightarrow> apiErrorMessage (snd (imageFailure canvas lbl e s)) = Some e"
  "isAuthMessage e \<Longrightarrow>
     showApiKeyDialog (snd (imageFailure canvas lbl e s)) = (showApiKeyDialog s \<or> opensKeyDialog e)"
  "\<not> isAuthMessage e \<Longrightarrow> apiStatus (snd (imageFailure canvas lbl e s)) = apiStatus s"
  "\<not> isAuthMessage e \<Longrightarrow>
     showApiKeyDialog (snd (imageFailure canvas lbl e s)) = showApiKeyDialog s"
  by (simp_all add: imageFailure_def handleAPIError_flags)

lemma generateImage_flags:
  "finalOutcome s = Inl e \<Longrightarrow> isAuthMessage e \<Longrightarrow>
     apiStatus (snd (generateImage K canvas beat ty pageNum s)) = error
     \<and> apiErrorMessage (snd (generateImage K canvas beat ty pageNum s)) = Some e
     \<and> showApiKeyDialog (snd (generateImage K canvas beat ty pageNum s))
         = (showApiKeyDialog s \<or> opensKeyDialog e)"
  "finalOutcome s = Inl e \<Longrightarrow> \<not> isAuthMessage e \<Longrightarrow>
     apiStatus (snd (generateImage K canvas beat ty pageNum s)) = apiStatus s
     \<and> showApiKeyDialog (snd (generateImage K canvas beat ty pageNum s)) = showApiKeyDialog s"
  "finalOutcome s = Inr url \<Longrightarrow>
     apiStatus (snd (generateImage K canvas beat ty pageNum s)) = apiStatus s
     \<and> showApiKeyDialog (snd (generateImage K canvas beat ty pageNum s)) = showApiKeyDialog s"
proof -
  let ?s0 = "addLog (''Rendering visual assets for '' @ pageLabel ty pageNum @ ''...'') s"
  have "finalOutcome ?s0 = finalOutcome s" by simp
  then have o: "(case fst (ladder K beat ty ?s0) of Inl e \<Rightarrow> Inl e | Inr res \<Rightarrow> inspectResponse res)
      = finalOutcome s"
    by (simp only: ladder_outcome)
  have u: "apiStatus (snd (ladder K beat ty ?s0)) = apiStatus s"
    "apiErrorMessage (snd (ladder K beat ty ?s0)) = apiErrorMessage s"
    "showApiKeyDialog (snd (ladder K beat ty ?s0)) = showApiKeyDialog s"
    by (simp_all add: ladder_unchanged)
  show "finalOutcome s = Inl e \<Longrightarrow> isAuthMessage e \<Longrightarrow>
     apiStatus (snd (generateImage K canvas beat ty pageNum s)) = error
     \<and> apiErrorMessage (snd (generateImage K canvas beat ty pageNum s)) = Some e
     \<and> showApiKeyDialog (snd (generateImage K canvas beat ty pageNum s))
         = (showApiKeyDialog s \<or> opensKeyDialog e)"
    using o u
    by (cases "ladder K beat ty ?s0"; cases "fst (ladder K beat ty ?s0)")
       (auto simp: generateImage_def Let_def imageFailure_flags split: sum.splits)
  show "finalOutcome s = Inl e \<Longrightarrow> \<not> isAuthMessage e \<Longrightarrow>
     apiStatus (snd (generateImage K canvas beat ty pageNum s)) = apiStatus s
     \<and> showApiKeyDialog (snd (generateImage K canvas beat ty pageNum s)) = showApiKeyDialog s"
    using o u
    by (cases "ladder K beat ty ?s0"; cases "fst (ladder K beat ty ?s0)")
       (auto simp: generateImage_def Let_def imageFailure_flags split: sum.splits)
  show "finalOutcome s = Inr url \<Longrightarrow>
     apiStatus (snd (generateImage K canvas beat ty pageNum s)) = apiStatus s
     \<and> showApiKeyDialog (snd (generateImage K canvas beat ty pageNum s)) = showApiKeyDialog s"
    using o u
    by (cases "ladder K beat ty ?s0"; cases "fst (ladder K beat ty ?s0)")
       (auto simp: generateImage_def Let_def imageFailure_flags split: sum.splits)
qed

section \<open>The fallback ladder\<close>

lemma exampleApp_reply: "ladderReply (exampleApp sc) k = withTimeout (sc k) API_TIMEOUT_MS"
  by (simp add: ladderReply_def exampleApp_def)

lemma blockedTwice_replies:
  "withTimeout (blockedTwiceScript 0) ms = Inr emptyResponse"
  "withTimeout (blockedTwiceScript (Suc 0)) ms = Inl ''Error: blocked, finishReason SAFETY''"
  "withTimeout (blockedTwiceScript 2) ms = Inr imageResponse"
  by (simp_all add: blockedTwiceScript_def withTimeout_def)

lemma blocked_message: "isSafetyBlock ''Error: blocked, finishReason SAFETY''"
  by code_simp

lemma inspect_imageResponse:
  "inspectResponse imageResponse = Inr ''data:image/png;base64,iVBORw0KGgo=''"
  by (simp add: inspectResponse_def imageResponse_def firstCandidateParts_def findImage_def
      imagePart_def truthyStr_def dataUri_def showOpt_def)

lemma blockedTwice_escalation:
  "escalates (ladderReply (exampleApp blockedTwiceScript) 0)"
  "escalates (ladderReply (exampleApp blockedTwiceScript) (Suc 0))"
  "\<not> escalates (ladderReply (exampleApp blockedTwiceScript) 2)"
  "hasImage (ladderReply (exampleApp blockedTwiceScript) 2)"
  by (simp_all add: exampleApp_reply blockedTwice_replies escalates_def hasImage_def
      noCandidates_def emptyResponse_def blocked_message inspect_imageResponse)
    (simp add: imageResponse_def)

lemma blockedTwice_depth: "ladderDepth (exampleApp blockedTwiceScript) = 3"
  by (simp add: ladderDepth_def blockedTwice_escalation)

text \<open>
  C1. One call of \<open>generateImage\<close> makes \<open>n\<close> requests, \<open>1 \<le> n \<le> 4\<close>, and they are the
  requests of the levels \<open>0, ..., n - 1\<close> in this order, each once. Level \<open>k + 1\<close> is
  attempted exactly when level \<open>k\<close> was attempted and raised an error that \<open>isSafetyBlock\<close>
  accepts or returned no candidates; so any other error, a timeout among them, ends the
  ladder, and so does a response with inline image data. The request of level 3 is one text
  part, the prompt followed by the textual character descriptions, and carries no image.
\<close>

theorem fallback_ladder_order:
  "let n = levelsAttempted K canvas beat ty pageNum s
   in calls (snd (generateImage K canvas beat ty pageNum s))
        = calls s @ map (ladderRequest K s beat ty) [0..<n]
      \<and> 1 \<le> n \<and> n \<le> 4
      \<and> (\<forall>k<3. (k + 1 < n) = (k < n \<and> escalates (ladderReply s k)))
      \<and> (\<forall>k<n. hasImage (ladderReply s k) \<longrightarrow> n = k + 1)
      \<and> (\<forall>k<n. script s (length (calls s) + k) = Hangs \<longrightarrow> n = k + 1)
      \<and> contents (ladderRequest K s beat ty 3)
           = [textPart (buildPrompt K s beat ty 3 @ personaDescs s @ TEXT_ONLY_SUFFIX)]
      \<and> (\<forall>p\<in>set (contents (ladderRequest K s beat ty 3)). inlineData p = None)"
proof -
  have a: "\<forall>k<ladderDepth s. hasImage (ladderReply s k) \<longrightarrow> ladderDepth s = k + 1"
    using ladderDepth_stop hasImage_not_escalates by blast
  have b: "\<forall>k<ladderDepth s. script s (length (calls s) + k) = Hangs \<longrightarrow> ladderDepth s = k + 1"
    using ladderDepth_stop timeout_not_safety by (simp add: ladderReply_def)
  have c: "\<forall>p\<in>set (contents (ladderRequest K s beat ty 3)). inlineData p = None"
    by (simp add: level3_parts textPart_def)
  have f1: "calls (snd (generateImage K canvas beat ty pageNum s))
        = calls s @ map (ladderRequest K s beat ty) [0..<ladderDepth s]"
    by (rule generateImage_calls)
  have f2: "1 \<le> ladderDepth s" and f3: "ladderDepth s \<le> 4"
    using ladderDepth_bounds [of s] by simp_all
  have f4: "\<forall>k<3. (k + 1 < ladderDepth s) = (k < ladderDepth s \<and> escalates (ladderReply s k))"
    using ladderDepth_step by blast
  show ?thesis
    unfolding Let_def levelsAttempted_eq
    by (intro conjI) (rule f1 f2 f3 f4 a b level3_parts c)+
qed

theorem fallback_ladder_order_witness:
  "levelsAttempted exampleConsts (canvasJPEG exampleRuntime) exampleBeat story 1
       (exampleApp blockedTwiceScript) = 3
   \<and> escalates (ladderReply (exampleApp blockedTwiceScript) 0)
   \<and> escalates (ladderReply (exampleApp blockedTwiceScript) 1)
   \<and> hasImage (ladderReply (exampleApp blockedTwiceScript) 2)
   \<and> calls (snd (generateImage exampleConsts (canvasJPEG exampleRuntime) exampleBeat story 1
         (exampleApp blockedTwiceScript)))
        = map (ladderRequest exampleConsts (exampleApp blockedTwiceScript) exampleBeat story)
            [0, 1, 2]
   \<and> inlineData (hd (contents
         (ladderRequest exampleConsts (exampleApp blockedTwiceScript) exampleBeat story 3))) = None"
proof -
  have n: "levelsAttempted exampleConsts (canvasJPEG exampleRuntime) exampleBeat story 1
       (exampleApp blockedTwiceScript) = 3"
    by (simp add: levelsAttempted_eq blockedTwice_depth)
  have e: "calls (exampleApp blockedTwiceScript) = []"
    by (simp add: exampleApp_def)
  from fallback_ladder_order [of exampleConsts "canvasJPEG exampleRuntime" exampleBeat story 1
      "exampleApp blockedTwiceScript"]
  show ?thesis
    unfolding Let_def n
    by (simp add: e upt4 blockedTwice_escalation textPart_def)
qed

section \<open>Inspection of the response\<close>














section \<open>What \<open>generateImage\<close> returns\<close>

lemma forbidden_message:
  "isAuthMessage ''Error: 403 Forbidden''"
  "\<not> isSafetyBlock ''Error: 403 Forbidden''"
  "\<not> opensKeyDialog ''Error: 403 Forbidden''"
  by code_simp+

lemma forbidden_outcome: "finalOutcome (exampleApp forbiddenScript) = Inl ''Error: 403 Forbidden''"
proof -
  have "ladderDepth (exampleApp forbiddenScript) = 1"
    by (simp add: ladderDepth_def exampleApp_reply forbiddenScript_def withTimeout_def
        escalates_def forbidden_message)
  then show ?thesis
    by (simp add: finalOutcome_def exampleApp_reply forbiddenScript_def withTimeout_def)
qed

text \<open>
  C3 as stated fails. When every request is rejected with \<open>403 Forbidden\<close>, the error is
  taken for an auth problem and the auth placeholder is returned, but the key dialog stays
  closed: \<open>handleAPIError\<close> opens it for other messages only.
\<close>

theorem auth_escalation_counterexample:
  "isAuthMessage ''Error: 403 Forbidden''
   \<and> finalOutcome (exampleApp forbiddenScript) = Inl ''Error: 403 Forbidden''
   \<and> fst (generateImage exampleConsts (canvasJPEG exampleRuntime) exampleBeat story 1
        (exampleApp forbiddenScript))
      = createPlaceholderImage (canvasJPEG exampleRuntime) ''AUTH ERROR''
   \<and> \<not> showApiKeyDialog (snd (generateImage exampleConsts (canvasJPEG exampleRuntime)
        exampleBeat story 1 (exampleApp forbiddenScript)))"
proof -
  have d: "\<not> showApiKeyDialog (exampleApp forbiddenScript)"
    by (simp add: exampleApp_def)
  show ?thesis
    using generateImage_flags(1) [OF forbidden_outcome forbidden_message(1),
        where K = exampleConsts and canvas = "canvasJPEG exampleRuntime" and beat = exampleBeat
        and ty = story and pageNum = 1]
    by (simp add: forbidden_message forbidden_outcome generateImage_result placeholderText_def d)
qed

text \<open>
  C3, amended. \<open>generateImage\<close> always returns a string: the data URI of the image the last
  attempted level returned, or else one of three placeholders, drawn with the banners
  \<open>AUTH ERROR\<close>, \<open>CONTENT FILTERED\<close> and \<open>IMAGE GEN FAILED\<close>, which differ. An error
  whose message contains \<open>API_KEY\<close>, \<open>403\<close> or \<open>Permission denied\<close> returns the auth
  placeholder and is handed to \<open>handleAPIError\<close>, which records the error; the key dialog is
  opened only if the message contains \<open>Requested entity was not found\<close> or
  \<open>API_KEY_INVALID\<close> or, in any case, \<open>permission denied\<close>.
\<close>

theorem generateImage_total:
  "(case finalOutcome s of
      Inr url \<Rightarrow> fst (generateImage K canvas beat ty pageNum s) = url
    | Inl e \<Rightarrow>
        fst (generateImage K canvas beat ty pageNum s)
          = createPlaceholderImage canvas (placeholderText e)
        \<and> placeholderText e \<in> {''AUTH ERROR'', ''CONTENT FILTERED'', ''IMAGE GEN FAILED''}
        \<and> (isAuthMessage e \<longrightarrow>
              placeholderText e = ''AUTH ERROR''
              \<and> apiStatus (snd (generateImage K canvas beat ty pageNum s)) = error
              \<and> apiErrorMessage (snd (generateImage K canvas beat ty pageNum s)) = Some e
              \<and> showApiKeyDialog (snd (generateImage K canvas beat ty pageNum s))
                  = (showApiKeyDialog s \<or> opensKeyDialog e)))
   \<and> distinct (map toUpperCase [''AUTH ERROR'', ''CONTENT FILTERED'', ''IMAGE GEN FAILED''])"
proof -
  have d: "distinct (map toUpperCase [''AUTH ERROR'', ''CONTENT FILTERED'', ''IMAGE GEN FAILED''])"
    by code_simp
  show ?thesis
  proof (cases "finalOutcome s")
    case (Inr url)
    then show ?thesis using d by (simp add: generateImage_result)
  next
    case (Inl e)
    have p: "placeholderText e \<in> {''AUTH ERROR'', ''CONTENT FILTERED'', ''IMAGE GEN FAILED''}"
      by (simp add: placeholderText_def)
    have q: "isAuthMessage e \<Longrightarrow> placeholderText e = ''AUTH ERROR''"
      by (simp add: placeholderText_def)
    show ?thesis
      using Inl d p q generateImage_flags(1) [OF Inl, where K = K and canvas = canvas
          and beat = beat and ty = ty and pageNum = pageNum]
      by (simp add: generateImage_result)
  qed
qed

theorem generateImage_total_witness:
  "finalOutcome (exampleApp forbiddenScript) = Inl ''Error: 403 Forbidden''
   \<and> isAuthMessage ''Error: 403 Forbidden''
   \<and> apiStatus (snd (generateImage exampleConsts (canvasJPEG exampleRuntime) exampleBeat story 1
        (exampleApp forbiddenScript))) = error
   \<and> apiErrorMessage (snd (generateImage exampleConsts (canvasJPEG exampleRuntime) exampleBeat
        story 1 (exampleApp forbiddenScript))) = Some ''Error: 403 Forbidden''"
  using generateImage_total [where s = "exampleApp forbiddenScript" and K = exampleConsts
      and canvas = "canvasJPEG exampleRuntime" and beat = exampleBeat and ty = story
      and pageNum = 1]
  by (simp add: forbidden_outcome forbidden_message)

section \<open>The scene text in the prompt of a story page\<close>

lemma buildPrompt_story:
  "buildPrompt K s beat story lvl
     = stylePrefix s @ (if lvl > 0 then SAFE_MODE else [])
       @ ''TYPE: Vertical comic panel. '' @ ''SCENE: ''
       @ (if lvl = 1 \<or> lvl = 2 then softenScene (originalScene s beat) else originalScene s beat)
       @ ''. '' @ panelSuffix beat"
  by (simp add: buildPrompt_def stylePrefix_def panelSuffix_def Let_def)

lemma soften_example: "softenScene ''The hero joins the fight'' = ''The hero joins the confrontation''"
  by code_simp

lemma example_prompt_level1:
  "buildPrompt exampleConsts (exampleApp blockedTwiceScript) exampleBeat story 1
     = ''STYLE: Classic Horror comic book art. Fictional Character Art. SAFE MODE: Fictional illustration. Fantasy art. No photorealism. TYPE: Vertical comic panel. SCENE: The hero joins the confrontation. INSTRUCTIONS: Create a fictional comic book illustration. Artistic interpretation. ''"
  by (simp add: buildPrompt_story stylePrefix_def styleEra_def exampleApp_def originalScene_def
      exampleBeat_def panelSuffix_def SAFE_MODE_def truthyStr_def soften_example)

text \<open>
  C8 as stated fails at level 1: for the scene \<open>The hero joins the fight\<close> the prompt of
  level 1 no longer contains the scene text, the word \<open>fight\<close> has been replaced.
\<close>

theorem level1_scene_counterexample:
  "scene exampleBeat = ''The hero joins the fight''
   \<and> \<not> strIncludes (buildPrompt exampleConsts (exampleApp blockedTwiceScript) exampleBeat story 1)
         ''The hero joins the fight''
   \<and> strIncludes (buildPrompt exampleConsts (exampleApp blockedTwiceScript) exampleBeat story 1)
         ''The hero joins the confrontation''"
proof -
  have a: "\<not> strIncludes ''STYLE: Classic Horror comic book art. Fictional Character Art. SAFE MODE: Fictional illustration. Fantasy art. No photorealism. TYPE: Vertical comic panel. SCENE: The hero joins the confrontation. INSTRUCTIONS: Create a fictional comic book illustration. Artistic interpretation. ''
      ''The hero joins the fight''"
    by code_simp
  have b: "strIncludes ''STYLE: Classic Horror comic book art. Fictional Character Art. SAFE MODE: Fictional illustration. Fantasy art. No photorealism. TYPE: Vertical comic panel. SCENE: The hero joins the confrontation. INSTRUCTIONS: Create a fictional comic book illustration. Artistic interpretation. ''
      ''The hero joins the confrontation''"
    by code_simp
  show ?thesis
    unfolding example_prompt_level1 using a b by (simp add: exampleBeat_def)
qed

text \<open>
  C8, amended. The prompt of a story page is the style line, at every level above 0 the
  fictional/no-photorealism qualifier, the panel type, the scene and the instructions. At
  level 0 and at level 3 the scene is the beat's scene text unchanged; at level 1 and at
  level 2 alike it is that text with the violent-action vocabulary replaced by
  \<open>confrontation\<close>, so the prompts of levels 1 and 2 are the same.
\<close>

theorem story_prompt_scene:
  "buildPrompt K s beat story lvl
     = stylePrefix s @ (if lvl > 0 then SAFE_MODE else [])
       @ ''TYPE: Vertical comic panel. '' @ ''SCENE: ''
       @ (if lvl = 1 \<or> lvl = 2 then softenScene (originalScene s beat) else originalScene s beat)
       @ ''. '' @ panelSuffix beat
   \<and> strIncludes (buildPrompt K s beat story 0) (originalScene s beat)
   \<and> strIncludes (buildPrompt K s beat story 3) (originalScene s beat)
   \<and> strIncludes (buildPrompt K s beat story 1) (softenScene (originalScene s beat))
   \<and> buildPrompt K s beat story 1 = buildPrompt K s beat story 2"
proof -
  have i: "\<And>a b x. strIncludes (a @ x @ b) x"
    by (simp add: strIncludes_def)
  have "strIncludes (buildPrompt K s beat story 0) (originalScene s beat)"
    unfolding buildPrompt_story
    using i [of "stylePrefix s @ [] @ ''TYPE: Vertical comic panel. '' @ ''SCENE: ''"
        "originalScene s beat" "''. '' @ panelSuffix beat"]
    by simp
  moreover have "strIncludes (buildPrompt K s beat story 3) (originalScene s beat)"
    unfolding buildPrompt_story
    using i [of "stylePrefix s @ SAFE_MODE @ ''TYPE: Vertical comic panel. '' @ ''SCENE: ''"
        "originalScene s beat" "''. '' @ panelSuffix beat"]
    by simp
  moreover have "strIncludes (buildPrompt K s beat story 1) (softenScene (originalScene s beat))"
    unfolding buildPrompt_story
    using i [of "stylePrefix s @ SAFE_MODE @ ''TYPE: Vertical comic panel. '' @ ''SCENE: ''"
        "softenScene (originalScene s beat)" "''. '' @ panelSuffix beat"]
    by simp
  moreover have "buildPrompt K s beat story 1 = buildPrompt K s beat story 2"
    by (simp add: buildPrompt_story)
  ultimately show ?thesis
    using buildPrompt_story [of K s beat lvl] by blast
qed

theorem story_prompt_scene_witness:
  "buildPrompt exampleConsts (exampleApp blockedTwiceScript) exampleBeat story 0
     = ''STYLE: Classic Horror comic book art. Fictional Character Art. TYPE: Vertical comic panel. SCENE: The hero joins the fight. INSTRUCTIONS: Create a fictional comic book illustration. Artistic interpretation. ''"
  using story_prompt_scene [of exampleConsts "exampleApp blockedTwiceScript" exampleBeat 0]
  by (simp add: stylePrefix_def styleEra_def exampleApp_def originalScene_def
      exampleBeat_def panelSuffix_def truthyStr_def)

section \<open>What the generators leave alone\<close>

lemma frame_refl [simp]: "frame s s"
  by (simp add: frame_def)

lemma frame_trans: "frame s t \<Longrightarrow> frame t u \<Longrightarrow> frame s u"
proof -
  assume a: "frame s t" and b: "frame t u"
  from a obtain l c st em d r where t: "t = s\<lparr>logs := l, calls := c, apiStatus := st,
      apiErrorMessage := em, showApiKeyDialog := d, randomsDrawn := r\<rparr>"
    unfolding frame_def by blast
  from b obtain l' c' st' em' d' r' where u: "u = t\<lparr>logs := l', calls := c', apiStatus := st',
      apiErrorMessage := em', showApiKeyDialog := d', randomsDrawn := r'\<rparr>"
    unfolding frame_def by blast
  show "frame s u"
    unfolding frame_def u t by simp
qed

lemma frame_fields:
  assumes "frame s t"
  shows "history t = history s" "comicFaces t = comicFaces s"
    "generatingPages t = generatingPages s" "effects t = effects s"
    "hero t = hero s" "friend t = friend s" "issueNumber t = issueNumber s"
    "isFinale t = isFinale s" "previousSummary t = previousSummary s"
    "selectedGenre t = selectedGenre s" "script t = script s" "randoms t = randoms s"
    "storyTone t = storyTone s" "customPremise t = customPremise s"
    "selectedLanguage t = selectedLanguage s" "richMode t = richMode s"
    "isLaunching t = isLaunching s" "refStrength t = refStrength s"
proof -
  from assms obtain l c st em d r where t: "t = s\<lparr>logs := l, calls := c, apiStatus := st,
      apiErrorMessage := em, showApiKeyDialog := d, randomsDrawn := r\<rparr>"
    unfolding frame_def by blast
  show "history t = history s" "comicFaces t = comicFaces s"
    "generatingPages t = generatingPages s" "effects t = effects s"
    "hero t = hero s" "friend t = friend s" "issueNumber t = issueNumber s"
    "isFinale t = isFinale s" "previousSummary t = previousSummary s"
    "selectedGenre t = selectedGenre s" "script t = script s" "randoms t = randoms s"
    "storyTone t = storyTone s" "customPremise t = customPremise s"
    "selectedLanguage t = selectedLanguage s" "richMode t = richMode s"
    "isLaunching t = isLaunching s" "refStrength t = refStrength s"
    unfolding t by simp_all
qed

lemma frame_addLog [simp]: "frame s (addLog m s)"
  by (simp add: frame_def addLog_def Let_def)

lemma frame_handleAPIError [simp]: "frame s (handleAPIError m s)"
  by (simp add: frame_def handleAPIError_def addLog_def Let_def)

lemma frame_calls [simp]: "frame s (s\<lparr>calls := c\<rparr>)"
  by (simp add: frame_def)

lemma frame_random [simp]: "frame s (snd (random s))"
  by (simp add: frame_def random_def)

lemma frame_addLog_after: "frame s t \<Longrightarrow> frame s (addLog m t)"
  using frame_trans frame_addLog by blast

lemma frame_calls_after: "frame s t \<Longrightarrow> frame s (t\<lparr>calls := c\<rparr>)"
  using frame_trans frame_calls by blast

lemma frame_handleAPIError_after: "frame s t \<Longrightarrow> frame s (handleAPIError m t)"
  using frame_trans frame_handleAPIError by blast




lemma frame_generateSummary: "frame s (snd (generateSummary hist s))"
  by (auto simp: generateSummary_def Let_def generateContent_def
      intro!: frame_calls_after split: sum.splits)


lemma frame_friendInstruction: "frame s (snd (friendInstruction rel s))"
  by (auto simp: friendInstruction_def frame_def random_def split: prod.splits)

lemma frame_draftBeat: "frame s (snd (draftBeat K R pageNum d prompt s))"
  by (auto simp: draftBeat_def generateContent_def
      intro!: frame_calls_after frame_addLog_after frame_handleAPIError_after
      split: sum.splits)

lemma frame_generateBeat: "frame s (snd (generateBeat K R hist r pageNum d s))"
proof (cases "hero s = None")
  case True
  then show ?thesis by (simp add: generateBeat_def)
next
  case False
  define s0 where "s0 = addLog (''Drafting narrative arc for Page '' @ showInt pageNum @ ''...'') s"
  obtain fi s1 where f: "friendInstruction (relevantHistory hist pageNum) s0 = (fi, s1)"
    by (cases "friendInstruction (relevantHistory hist pageNum) s0")
  have "frame s0 s1"
    using frame_friendInstruction [of s0 "relevantHistory hist pageNum"] f by simp
  moreover have "frame s s0"
    by (simp add: s0_def)
  ultimately have s1: "frame s s1"
    using frame_trans by blast
  have "frame s (snd (draftBeat K R pageNum d (beatPrompt K s1 hist pageNum d fi) s1))"
    using frame_trans [OF s1 frame_draftBeat] .
  then show ?thesis
    using False f
    unfolding generateBeat_def s0_def [symmetric]
    by (auto split: prod.splits)
qed

section \<open>Launch guard\<close>

lemma trim_empty: "(trim t = []) = (\<forall>c\<in>set t. isSpace c)"
proof
  assume "trim t = []"
  then have "\<forall>c\<in>set (dropWhile isSpace t). isSpace c"
    by (simp add: trim_def dropWhile_eq_Nil_conv)
  then have "dropWhile isSpace t = []"
    using hd_dropWhile [of isSpace t] by (cases "dropWhile isSpace t") auto
  then show "\<forall>c\<in>set t. isSpace c"
    by (simp add: dropWhile_eq_Nil_conv)
next
  assume "\<forall>c\<in>set t. isSpace c"
  then have "dropWhile isSpace t = []"
    by (simp add: dropWhile_eq_Nil_conv)
  then show "trim t = []"
    by (simp only: trim_def dropWhile.simps rev.simps)
qed

text \<open>
  C9. If no hero is set, or the genre is \<open>Custom\<close> and the premise is empty or consists
  of white space, \<open>launchStory\<close> returns without an error and before anything is generated:
  no request is made, no random value is drawn, and the pages, the history, the guard set,
  the issue counter, the finale flag, the carried summary and the tone are as before.
\<close>

theorem launch_rejected:
  assumes "hero s = None \<or> (selectedGenre s = ''Custom'' \<and> (\<forall>c\<in>set (customPremise s). isSpace c))"
  shows "fst (launchStory K R s) = None
    \<and> calls (snd (launchStory K R s)) = calls s
    \<and> randomsDrawn (snd (launchStory K R s)) = randomsDrawn s
    \<and> comicFaces (snd (launchStory K R s)) = comicFaces s
    \<and> history (snd (launchStory K R s)) = history s
    \<and> generatingPages (snd (launchStory K R s)) = generatingPages s
    \<and> issueNumber (snd (launchStory K R s)) = issueNumber s
    \<and> isFinale (snd (launchStory K R s)) = isFinale s
    \<and> previousSummary (snd (launchStory K R s)) = previousSummary s
    \<and> storyTone (snd (launchStory K R s)) = storyTone s
    \<and> isLaunching (snd (launchStory K R s)) = isLaunching s"
proof -
  obtain hasKey dialog where v: "validateApiKey R (showApiKeyDialog s) = (hasKey, dialog)"
    by (cases "validateApiKey R (showApiKeyDialog s)")
  from assms have "hero s = None \<or> (selectedGenre s = ''Custom'' \<and> trim (customPremise s) = [])"
    by (simp add: trim_empty)
  then show ?thesis
    by (auto simp: launchStory_def v Let_def)
qed

theorem launch_rejected_witness:
  "selectedGenre customApp = ''Custom''
   \<and> customPremise customApp = ''  ''
   \<and> fst (launchStory exampleConsts exampleRuntime customApp) = None
   \<and> calls (snd (launchStory exampleConsts exampleRuntime customApp)) = []
   \<and> comicFaces (snd (launchStory exampleConsts exampleRuntime customApp)) = []
   \<and> issueNumber (snd (launchStory exampleConsts exampleRuntime customApp)) = 1"
proof -
  have h: "hero customApp = None
      \<or> (selectedGenre customApp = ''Custom'' \<and> (\<forall>c\<in>set (customPremise customApp). isSpace c))"
    by (simp add: customApp_def isSpace_def)
  show ?thesis
    using launch_rejected [OF h, of exampleConsts exampleRuntime]
    by (simp add: customApp_def exampleApp_def)
qed

section \<open>Issue rollover\<close>

lemma generateSummary_nonempty: "fst (generateSummary hist s) \<noteq> []"
  by (auto simp: generateSummary_def Let_def generateContent_def orElse_def
      split: sum.splits option.splits prod.splits)

lemma generateSummary_failure:
  assumes "summaryText hist \<noteq> []" "\<forall>res. script s (length (calls s)) \<noteq> Answers res"
  shows "fst (generateSummary hist s) = ''The story continues...''"
proof (cases "script s (length (calls s))")
  case (Rejects e)
  with assms(1) show ?thesis
    by (simp add: generateSummary_def Let_def generateContent_def withTimeout_def)
next
  case (Answers res)
  with assms(2) show ?thesis by simp
next
  case Hangs
  with assms(1) show ?thesis
    by (simp add: generateSummary_def Let_def generateContent_def withTimeout_def)
qed

lemma archiveIssue_eq:
  "archiveIssue finale s =
     (addLog ''Issue archived.''
        ((snd (generateSummary (history s) s))
           \<lparr>previousSummary := previousSummary s @ nl @ ''[Issue '' @ showInt (issueNumber s)
               @ '' Summary]: '' @ fst (generateSummary (history s) s)\<rparr>))
       \<lparr>issueNumber := issueNumber s + 1, isFinale := finale, comicFaces := [],
        currentSheetIndex := 0, history := [], generatingPages := {}\<rparr>"
  using frame_fields [OF frame_generateSummary [of s "history s"]]
  by (cases "generateSummary (history s) s") (simp add: archiveIssue_def Let_def addLog_def)

text \<open>
  C7. \<open>handleNextIssue finale\<close> first archives the issue and then runs the launch sequence
  from the archived state. In that state the carried summary is the previous summary
  followed by a line with the recap; the recap is never empty, and it is the stub
  \<open>The story continues...\<close> when the history has text and the summarization call does not
  answer; the issue counter is one higher, the finale flag is the argument, and the pages,
  the history and the guard set are empty.
\<close>

theorem issue_rollover:
  "handleNextIssue K R finale s = startIssueGeneration K R True (archiveIssue finale s)
   \<and> fst (generateSummary (history s) s) \<noteq> []
   \<and> (summaryText (history s) \<noteq> [] \<and> (\<forall>res. script s (length (calls s)) \<noteq> Answers res)
        \<longrightarrow> fst (generateSummary (history s) s) = ''The story continues...'')
   \<and> previousSummary (archiveIssue finale s)
        = previousSummary s @ nl @ ''[Issue '' @ showInt (issueNumber s) @ '' Summary]: ''
            @ fst (generateSummary (history s) s)
   \<and> issueNumber (archiveIssue finale s) = issueNumber s + 1
   \<and> isFinale (archiveIssue finale s) = finale
   \<and> comicFaces (archiveIssue finale s) = []
   \<and> history (archiveIssue finale s) = []
   \<and> generatingPages (archiveIssue finale s) = {}"
proof -
  have "previousSummary (archiveIssue finale s)
        = previousSummary s @ nl @ ''[Issue '' @ showInt (issueNumber s) @ '' Summary]: ''
            @ fst (generateSummary (history s) s)"
    unfolding archiveIssue_eq by (simp add: addLog_def Let_def)
  moreover have "issueNumber (archiveIssue finale s) = issueNumber s + 1"
    "isFinale (archiveIssue finale s) = finale"
    "comicFaces (archiveIssue finale s) = []"
    "history (archiveIssue finale s) = []"
    "generatingPages (archiveIssue finale s) = {}"
    unfolding archiveIssue_eq by simp_all
  ultimately show ?thesis
    using generateSummary_nonempty [of "history s" s] generateSummary_failure [of "history s" s]
    by (simp add: handleNextIssue_def)
qed

theorem issue_rollover_witness:
  "summaryText (history finishedApp) \<noteq> []
   \<and> fst (generateSummary (history finishedApp) finishedApp) = ''The story continues...''
   \<and> previousSummary (archiveIssue False finishedApp) \<noteq> []
   \<and> issueNumber (archiveIssue False finishedApp) = 2
   \<and> comicFaces (archiveIssue False finishedApp) = []
   \<and> history (archiveIssue False finishedApp) = []
   \<and> generatingPages (archiveIssue False finishedApp) = {}"
proof -
  have t: "summaryText (history finishedApp) \<noteq> []"
    by (simp add: finishedApp_def summaryText_def storyFace_def summaryLine_def)
  have r: "\<forall>res. script finishedApp (length (calls finishedApp)) \<noteq> Answers res"
    by (simp add: finishedApp_def exampleApp_def forbiddenScript_def)
  have i: "issueNumber finishedApp = 1"
    by (simp add: finishedApp_def exampleApp_def)
  show ?thesis
    using issue_rollover [of exampleConsts exampleRuntime False finishedApp] t r i
    by simp
qed

section \<open>The beat that is returned\<close>

lemma repairBeat_cong:
  "selectedGenre s = selectedGenre t \<Longrightarrow> repairBeat R s = repairBeat R t"
  unfolding repairBeat_def repairScene_def DEFAULT_SCENE_def fun_eq_iff by (simp only:) simp

lemma beatFromReply_cong:
  "selectedGenre s = selectedGenre t \<Longrightarrow> beatFromReply R s = beatFromReply R t"
  unfolding beatFromReply_def fun_eq_iff using repairBeat_cong [of s t R] by (simp only:) simp

lemma beatPrompt_cong:
  assumes "issueNumber s = issueNumber t" "previousSummary s = previousSummary t"
    "selectedGenre s = selectedGenre t" "storyTone s = storyTone t"
    "customPremise s = customPremise t" "selectedLanguage s = selectedLanguage t"
    "isFinale s = isFinale t" "richMode s = richMode t"
  shows "beatPrompt K s = beatPrompt K t"
  unfolding beatPrompt_def promptHead_def promptTail_def storyContext_def instructionText_def
    stageInstruction_def coreDriver_def capLimit_def diaLimit_def langName_def
  by (simp only: assms)

lemma beatPrompt_frame: "frame s t \<Longrightarrow> beatPrompt K t = beatPrompt K s"
  by (rule beatPrompt_cong) (simp_all add: frame_fields)

lemma draftBeat_fst:
  "fst (draftBeat K R pageNum d prompt s)
     = (case beatAnswer K R pageNum d s of Inr b \<Rightarrow> b | Inl e \<Rightarrow> fallbackBeat pageNum)"
proof -
  have "beatFromReply R (s\<lparr>calls := calls s @ [beatRequest prompt]\<rparr>) = beatFromReply R s"
    by (rule beatFromReply_cong) simp
  then show ?thesis
    by (simp add: draftBeat_def generateContent_def beatAnswer_def beatRequest_def
        split: sum.splits)
qed

lemma draftBeat_calls:
  "calls (snd (draftBeat K R pageNum d prompt s)) = calls s @ [beatRequest prompt]"
  by (simp add: draftBeat_def generateContent_def beatRequest_def handleAPIError_def Let_def
      split: sum.splits)

lemma friendInstruction_calls:
  "calls (snd (friendInstruction rel s)) = calls s"
  by (auto simp: friendInstruction_def random_def split: prod.splits)

lemma beatAnswer_cong:
  "script t = script s \<Longrightarrow> calls t = calls s \<Longrightarrow> selectedGenre t = selectedGenre s \<Longrightarrow>
     beatAnswer K R pageNum d t = beatAnswer K R pageNum d s"
  using beatFromReply_cong [of t s R] by (simp add: beatAnswer_def)

lemma generateBeat_unfold:
  assumes "hero s \<noteq> None"
  obtains fi s1 where
    "frame s s1" "calls s1 = calls s"
    "generateBeat K R hist r pageNum d s
       = (Inr (fst (draftBeat K R pageNum d (beatPrompt K s hist pageNum d fi) s1)),
          snd (draftBeat K R pageNum d (beatPrompt K s hist pageNum d fi) s1))"
proof -
  define s0 where "s0 = addLog (''Drafting narrative arc for Page '' @ showInt pageNum @ ''...'') s"
  obtain fi s1 where f: "friendInstruction (relevantHistory hist pageNum) s0 = (fi, s1)"
    by (cases "friendInstruction (relevantHistory hist pageNum) s0")
  have "frame s0 s1"
    using frame_friendInstruction [of s0 "relevantHistory hist pageNum"] f by simp
  moreover have "frame s s0"
    by (simp add: s0_def)
  ultimately have fr: "frame s s1"
    using frame_trans by blast
  have c: "calls s1 = calls s"
    using friendInstruction_calls [of "relevantHistory hist pageNum" s0] f by (simp add: s0_def)
  have p: "beatPrompt K s1 = beatPrompt K s"
    using fr by (rule beatPrompt_frame)
  have "generateBeat K R hist r pageNum d s
       = (Inr (fst (draftBeat K R pageNum d (beatPrompt K s hist pageNum d fi) s1)),
          snd (draftBeat K R pageNum d (beatPrompt K s hist pageNum d fi) s1))"
    using assms f p
    unfolding generateBeat_def s0_def [symmetric]
    by (auto split: prod.splits)
  with fr c show ?thesis using that by blast
qed

lemma generateBeat_fst:
  assumes "hero s \<noteq> None"
  shows "fst (generateBeat K R hist r pageNum d s)
     = Inr (case beatAnswer K R pageNum d s of Inr b \<Rightarrow> b | Inl e \<Rightarrow> fallbackBeat pageNum)"
proof -
  obtain fi s1 where fr: "frame s s1" and c: "calls s1 = calls s"
    and g: "generateBeat K R hist r pageNum d s
       = (Inr (fst (draftBeat K R pageNum d (beatPrompt K s hist pageNum d fi) s1)),
          snd (draftBeat K R pageNum d (beatPrompt K s hist pageNum d fi) s1))"
    using generateBeat_unfold [OF assms] by metis
  have "beatAnswer K R pageNum d s1 = beatAnswer K R pageNum d s"
    using fr c by (intro beatAnswer_cong) (simp_all add: frame_fields)
  then show ?thesis
    by (simp add: g draftBeat_fst)
qed

lemma generateBeat_calls:
  assumes "hero s \<noteq> None"
  shows "\<exists>fi. calls (snd (generateBeat K R hist r pageNum d s))
     = calls s @ [beatRequest (beatPrompt K s hist pageNum d fi)]"
proof -
  obtain fi s1 where fr: "frame s s1" and c: "calls s1 = calls s"
    and g: "generateBeat K R hist r pageNum d s
       = (Inr (fst (draftBeat K R pageNum d (beatPrompt K s hist pageNum d fi) s1)),
          snd (draftBeat K R pageNum d (beatPrompt K s hist pageNum d fi) s1))"
    using generateBeat_unfold [OF assms] by metis
  show ?thesis
    by (rule exI [of _ fi]) (simp add: g draftBeat_calls c)
qed

lemma repairBeat_fields:
  assumes "repairBeat R s d f parsed = Inr b"
  shows "scene b = repairScene s parsed" "focus_char b = repairFocus parsed"
    "choices b = repairChoices R d f parsed"
  using assms
  by (auto simp: repairBeat_def split: if_splits sum.splits)

lemma repairScene_nonempty: "repairScene s parsed \<noteq> []"
proof (cases "member ''scene'' parsed")
  case None
  then show ?thesis by (simp add: repairScene_def DEFAULT_SCENE_def)
next
  case (Some v)
  then show ?thesis by (cases v) (simp_all add: repairScene_def DEFAULT_SCENE_def)
qed

lemma repairBeat_scene: "repairBeat R s d f parsed = Inr b \<Longrightarrow> scene b \<noteq> []"
  by (simp add: repairBeat_fields repairScene_nonempty)

lemma repairBeat_choices_plain:
  "repairBeat R s False f parsed = Inr b \<Longrightarrow> choices b = Some (JArr [])"
  by (simp add: repairBeat_fields repairChoices_def)

lemma repairBeat_choices_decision:
  "repairBeat R s True False parsed = Inr b \<Longrightarrow>
     choices b = (if truthy (member ''choices'' parsed)
                     \<and> \<not> shortLength R (the (member ''choices'' parsed))
                  then member ''choices'' parsed else Some defaultChoices)"
  by (simp add: repairBeat_fields repairChoices_def)

lemma repairFocus_default:
  assumes "member ''focus_char'' parsed
     \<notin> {Some (JStr ''hero''), Some (JStr ''friend''), Some (JStr ''other'')}"
  shows "repairFocus parsed = Hero"
proof (cases "member ''focus_char'' parsed")
  case None
  then show ?thesis by (simp add: repairFocus_def)
next
  case (Some v)
  with assms show ?thesis by (cases v) (simp_all add: repairFocus_def)
qed

lemma fallbackBeat_scene: "scene (fallbackBeat pageNum) \<noteq> []"
  by (simp add: fallbackBeat_def)

lemma beatAnswer_repair:
  "beatAnswer K R pageNum d s = Inr b \<Longrightarrow>
     \<exists>parsed. repairBeat R s d (pageNum = MAX_STORY_PAGES K) parsed = Inr b"
  by (auto simp: beatAnswer_def beatFromReply_def split: sum.splits)

lemma array_not_short:
  "truthy (Some (JArr xs)) \<and> \<not> shortLength R (JArr xs) \<Longrightarrow> 2 \<le> length xs"
  by (simp add: shortLength_def)

lemma emptyObject_answer:
  "beatAnswer exampleConsts exampleRuntime 10 True (exampleApp emptyObjectScript)
     = Inr \<lparr>caption = None, dialogue = None,
            scene = ''A dramatic scene in the style of Classic Horror. The characters react to the situation.'',
            focus_char = Hero, choices = None\<rparr>"
proof -
  have f: "stripFences ''{}'' = ''{}''" by code_simp
  show ?thesis
    by (simp add: beatAnswer_def beatFromReply_def exampleApp_def emptyObjectScript_def
        withTimeout_def textResponse_def orElse_def f exampleRuntime_def exampleConsts_def
        repairBeat_def isPrimitive_def cleanText_def member_def truthy_def repairScene_def
        DEFAULT_SCENE_def repairFocus_def repairChoices_def)
qed

text \<open>
  C4 as stated fails on a decision page that is the final story page: there the choices
  are not backfilled. With ten story pages, a call for page 10 with the decision flag set
  and the answer \<open>{}\<close> returns a beat whose \<open>choices\<close> member is undefined.
\<close>

theorem final_decision_page_counterexample:
  "MAX_STORY_PAGES exampleConsts = 10
   \<and> JSON_parse exampleRuntime ''{}'' = Inr (JObj [])
   \<and> fst (generateBeat exampleConsts exampleRuntime [] True 10 True (exampleApp emptyObjectScript))
      = Inr \<lparr>caption = None, dialogue = None,
             scene = ''A dramatic scene in the style of Classic Horror. The characters react to the situation.'',
             focus_char = Hero, choices = None\<rparr>"
proof -
  have h: "hero (exampleApp emptyObjectScript) \<noteq> None"
    by (simp add: exampleApp_def)
  show ?thesis
    by (simp add: generateBeat_fst [OF h] emptyObject_answer)
       (simp add: exampleConsts_def exampleRuntime_def)
qed

text \<open>
  C4, amended. With a hero set, \<open>generateBeat\<close> never throws: it returns the repaired
  answer of the model, or the default beat when the call, the parse or the repair raised an
  error. The scene of the returned beat is a non-empty string, its focus is one of hero,
  friend and other, and it is hero when the model supplied anything else. When the decision
  flag is false the choices are the empty list. When the flag is true, the page is not the
  final story page and the repair went through, the choices are the two defaults unless
  the model's value is truthy and its length is not below 2; so a list of choices has at
  least 2 entries.
\<close>

theorem generateBeat_wellformed:
  assumes "hero s \<noteq> None"
  shows "\<exists>beat. fst (generateBeat K R hist r pageNum d s) = Inr beat
     \<and> beat = (case beatAnswer K R pageNum d s of Inr b \<Rightarrow> b | Inl e \<Rightarrow> fallbackBeat pageNum)
     \<and> scene beat \<noteq> []
     \<and> showFocus (focus_char beat) \<in> {''hero'', ''friend'', ''other''}
     \<and> (\<not> d \<longrightarrow> choices beat = Some (JArr []))
     \<and> (d \<and> pageNum \<noteq> MAX_STORY_PAGES K \<and> (\<exists>b. beatAnswer K R pageNum d s = Inr b)
          \<longrightarrow> (choices beat = Some defaultChoices
               \<or> (truthy (choices beat) \<and> \<not> shortLength R (the (choices beat))))
              \<and> (\<forall>xs. choices beat = Some (JArr xs) \<longrightarrow> 2 \<le> length xs))
     \<and> (\<forall>parsed b. repairBeat R s d (pageNum = MAX_STORY_PAGES K) parsed = Inr b
            \<and> member ''focus_char'' parsed
                \<notin> {Some (JStr ''hero''), Some (JStr ''friend''), Some (JStr ''other'')}
          \<longrightarrow> focus_char b = Hero)"
proof -
  define beat where
    "beat = (case beatAnswer K R pageNum d s of Inr b \<Rightarrow> b | Inl e \<Rightarrow> fallbackBeat pageNum)"
  have g: "fst (generateBeat K R hist r pageNum d s) = Inr beat"
    by (simp add: generateBeat_fst [OF assms] beat_def)
  have sc: "scene beat \<noteq> []"
  proof (cases "beatAnswer K R pageNum d s")
    case (Inl e)
    then show ?thesis by (simp add: beat_def fallbackBeat_scene)
  next
    case (Inr b)
    then obtain parsed where "repairBeat R s d (pageNum = MAX_STORY_PAGES K) parsed = Inr b"
      using beatAnswer_repair by blast
    then show ?thesis using Inr by (simp add: beat_def repairBeat_scene)
  qed
  have fo: "showFocus (focus_char beat) \<in> {''hero'', ''friend'', ''other''}"
    by (cases "focus_char beat") (simp_all add: showFocus_def)
  have pl: "\<not> d \<longrightarrow> choices beat = Some (JArr [])"
  proof
    assume nd: "\<not> d"
    show "choices beat = Some (JArr [])"
    proof (cases "beatAnswer K R pageNum d s")
      case (Inl e)
      then show ?thesis by (simp add: beat_def fallbackBeat_def)
    next
      case (Inr b)
      then obtain parsed where "repairBeat R s d (pageNum = MAX_STORY_PAGES K) parsed = Inr b"
        using beatAnswer_repair by blast
      with nd have "choices b = Some (JArr [])"
        using repairBeat_choices_plain by simp
      then show ?thesis using Inr by (simp add: beat_def)
    qed
  qed
  have de: "d \<and> pageNum \<noteq> MAX_STORY_PAGES K \<and> (\<exists>b. beatAnswer K R pageNum d s = Inr b)
          \<longrightarrow> (choices beat = Some defaultChoices
               \<or> (truthy (choices beat) \<and> \<not> shortLength R (the (choices beat))))
              \<and> (\<forall>xs. choices beat = Some (JArr xs) \<longrightarrow> 2 \<le> length xs)"
  proof
    assume a: "d \<and> pageNum \<noteq> MAX_STORY_PAGES K \<and> (\<exists>b. beatAnswer K R pageNum d s = Inr b)"
    then obtain b where b: "beatAnswer K R pageNum d s = Inr b" by blast
    then obtain parsed where "repairBeat R s d (pageNum = MAX_STORY_PAGES K) parsed = Inr b"
      using beatAnswer_repair by blast
    with a have "repairBeat R s True False parsed = Inr b" by simp
    then have c: "choices b = (if truthy (member ''choices'' parsed)
                     \<and> \<not> shortLength R (the (member ''choices'' parsed))
                  then member ''choices'' parsed else Some defaultChoices)"
      by (rule repairBeat_choices_decision)
    have bb: "beat = b" using b by (simp add: beat_def)
    have one: "choices beat = Some defaultChoices
               \<or> (truthy (choices beat) \<and> \<not> shortLength R (the (choices beat)))"
      unfolding bb c by simp
    have two: "\<forall>xs. choices beat = Some (JArr xs) \<longrightarrow> 2 \<le> length xs"
    proof (intro allI impI)
      fix xs assume x: "choices beat = Some (JArr xs)"
      from one show "2 \<le> length xs"
      proof
        assume "choices beat = Some defaultChoices"
        with x show ?thesis by (auto simp: defaultChoices_def)
      next
        assume "truthy (choices beat) \<and> \<not> shortLength R (the (choices beat))"
        with x show ?thesis by (simp add: shortLength_def)
      qed
    qed
    from one two show "(choices beat = Some defaultChoices
               \<or> (truthy (choices beat) \<and> \<not> shortLength R (the (choices beat))))
              \<and> (\<forall>xs. choices beat = Some (JArr xs) \<longrightarrow> 2 \<le> length xs)" by blast
  qed
  have df: "\<forall>parsed b. repairBeat R s d (pageNum = MAX_STORY_PAGES K) parsed = Inr b
            \<and> member ''focus_char'' parsed
                \<notin> {Some (JStr ''hero''), Some (JStr ''friend''), Some (JStr ''other'')}
          \<longrightarrow> focus_char b = Hero"
    using repairBeat_fields(2) repairFocus_default by metis
  show ?thesis
    using g sc fo pl de df beat_def by blast
qed

theorem generateBeat_wellformed_witness:
  "hero (exampleApp emptyObjectScript) \<noteq> None
   \<and> (\<exists>beat. fst (generateBeat exampleConsts exampleRuntime [] False 3 True
                    (exampleApp emptyObjectScript)) = Inr beat
         \<and> scene beat \<noteq> []
         \<and> choices beat = Some defaultChoices)"
proof -
  have h: "hero (exampleApp emptyObjectScript) \<noteq> None"
    by (simp add: exampleApp_def)
  have f: "stripFences ''{}'' = ''{}''" by code_simp
  have a: "beatAnswer exampleConsts exampleRuntime 3 True (exampleApp emptyObjectScript)
     = Inr \<lparr>caption = None, dialogue = None,
            scene = ''A dramatic scene in the style of Classic Horror. The characters react to the situation.'',
            focus_char = Hero, choices = Some defaultChoices\<rparr>"
    by (simp add: beatAnswer_def beatFromReply_def exampleApp_def emptyObjectScript_def
        withTimeout_def textResponse_def orElse_def f exampleRuntime_def exampleConsts_def
        repairBeat_def isPrimitive_def cleanText_def member_def truthy_def repairScene_def
        DEFAULT_SCENE_def repairFocus_def repairChoices_def)
  show ?thesis
    using generateBeat_wellformed [OF h, of exampleConsts exampleRuntime "[]" False 3 True]
    by (simp add: a h)
qed

section \<open>The narrative context\<close>

lemma historyLine_nonempty: "historyLine p \<noteq> []"
  by (simp add: historyLine_def)

lemma joinWith_nonempty: "xs \<noteq> [] \<Longrightarrow> hd xs \<noteq> [] \<Longrightarrow> joinWith sep xs \<noteq> []"
  by (induction sep xs rule: joinWith.induct) auto

lemma historyText_nonempty: "rel \<noteq> [] \<Longrightarrow> historyText rel \<noteq> []"
  unfolding historyText_def
  by (rule joinWith_nonempty) (simp_all add: historyLine_nonempty hd_map)

lemma storyContext_suffix:
  "txt \<noteq> [] \<Longrightarrow> \<exists>pre. storyContext s txt = pre @ txt"
  by (simp add: storyContext_def Let_def)

text \<open>
  C10. The narrative context of the prompt is built from the relevant history alone: the
  entries of the given history that are story pages, have a beat and have a page index
  below the page number, each as often as it occurs, in ascending order of page index (pages
  with the same index in the order of the history). The request \<open>generateBeat\<close> makes is the
  prompt with the context of these entries, one line for each, and the call leaves the
  history and the pages as they are.
\<close>

theorem narrative_context:
  assumes "hero s \<noteq> None"
  shows "set (relevantHistory hist pageNum)
       = {p \<in> set hist. ftype p = story \<and> narrative p \<noteq> None \<and> pageIndexOr0 p < pageNum}
    \<and> sorted (map pageIndexOr0 (relevantHistory hist pageNum))
    \<and> (\<forall>k. filter (\<lambda>p. pageIndexOr0 p = k) (relevantHistory hist pageNum)
            = filter (\<lambda>p. pageIndexOr0 p = k)
                (filter (\<lambda>p. ftype p = story \<and> narrative p \<noteq> None \<and> pageIndexOr0 p < pageNum)
                   hist))
    \<and> (\<exists>fi. calls (snd (generateBeat K R hist r pageNum d s))
          = calls s @ [beatRequest
              (promptHead K s pageNum fi
                 @ storyContext s (joinWith nl (map historyLine (relevantHistory hist pageNum)))
                 @ promptTail K s pageNum (instructionText K s pageNum d))])
    \<and> (relevantHistory hist pageNum \<noteq> [] \<longrightarrow>
          (\<exists>pre. storyContext s (joinWith nl (map historyLine (relevantHistory hist pageNum)))
                 = pre @ joinWith nl (map historyLine (relevantHistory hist pageNum))))
    \<and> history (snd (generateBeat K R hist r pageNum d s)) = history s
    \<and> comicFaces (snd (generateBeat K R hist r pageNum d s)) = comicFaces s"
proof -
  have a: "set (relevantHistory hist pageNum)
       = {p \<in> set hist. ftype p = story \<and> narrative p \<noteq> None \<and> pageIndexOr0 p < pageNum}"
    by (auto simp: relevantHistory_def)
  have b: "sorted (map pageIndexOr0 (relevantHistory hist pageNum))"
    by (simp add: relevantHistory_def)
  have c: "\<forall>k. filter (\<lambda>p. pageIndexOr0 p = k) (relevantHistory hist pageNum)
            = filter (\<lambda>p. pageIndexOr0 p = k)
                (filter (\<lambda>p. ftype p = story \<and> narrative p \<noteq> None \<and> pageIndexOr0 p < pageNum)
                   hist)"
    unfolding relevantHistory_def by (simp only: sort_key_stable) simp
  have d: "\<exists>fi. calls (snd (generateBeat K R hist r pageNum d s))
          = calls s @ [beatRequest
              (promptHead K s pageNum fi
                 @ storyContext s (joinWith nl (map historyLine (relevantHistory hist pageNum)))
                 @ promptTail K s pageNum (instructionText K s pageNum d))]"
    using generateBeat_calls [OF assms, of K R hist r pageNum d]
    by (simp add: beatPrompt_def historyText_def)
  have e: "relevantHistory hist pageNum \<noteq> [] \<longrightarrow>
          (\<exists>pre. storyContext s (joinWith nl (map historyLine (relevantHistory hist pageNum)))
                 = pre @ joinWith nl (map historyLine (relevantHistory hist pageNum)))"
    using historyText_nonempty storyContext_suffix unfolding historyText_def by blast
  have f: "history (snd (generateBeat K R hist r pageNum d s)) = history s"
    "comicFaces (snd (generateBeat K R hist r pageNum d s)) = comicFaces s"
    using frame_fields [OF frame_generateBeat [of s K R hist r pageNum d]] by simp_all
  from a b c d e f show ?thesis by blast
qed

theorem narrative_context_witness:
  "hero (exampleApp emptyObjectScript) \<noteq> None
   \<and> relevantHistory mixedHistory 4 = [storyFace 1 (Some exampleBeat), storyFace 3 (Some exampleBeat)]
   \<and> sorted (map pageIndexOr0 (relevantHistory mixedHistory 4))
   \<and> history (snd (generateBeat exampleConsts exampleRuntime mixedHistory True 4 False
        (exampleApp emptyObjectScript))) = []"
proof -
  have h: "hero (exampleApp emptyObjectScript) \<noteq> None"
    by (simp add: exampleApp_def)
  have r: "relevantHistory mixedHistory 4
      = [storyFace 1 (Some exampleBeat), storyFace 3 (Some exampleBeat)]"
    by (simp add: relevantHistory_def mixedHistory_def storyFace_def pageIndexOr0_def)
  have e: "history (exampleApp emptyObjectScript) = []"
    by (simp add: exampleApp_def)
  show ?thesis
    using narrative_context [OF h, of mixedHistory 4 exampleConsts exampleRuntime True False]
    by (simp add: r e h)
qed

section \<open>The beat attached to a page\<close>

lemma sameBook_refl [simp]: "sameBook s s"
  by (simp add: sameBook_def)

lemma sameBook_trans: "sameBook s t \<Longrightarrow> sameBook t u \<Longrightarrow> sameBook s u"
  by (simp add: sameBook_def)




















section \<open>The pages of a batch\<close>










end
